theory Spec2Isabelle
  imports Complex_Main
begin

section \<open>Strings and exceptions\<close>

text \<open>
  A Python \<open>str\<close> is modelled as a \<open>string\<close> whose characters are the code points
  0..255 (one \<open>char\<close> per code point, so \<open>length\<close> is Python's \<open>len\<close> on such text).
  A raised exception is the value \<open>Inl e\<close> of a sum, where \<open>e\<close> is the text \<open>str(e)\<close>
  of the exception. Python floats that the code only compares and divides are
  modelled as exact rationals.
\<close>

type_synonym error = string

definition code :: "char \<Rightarrow> nat" where
  "code c = of_char c"

text \<open>\<open>str.isspace\<close> on one character, which is also the regular expression class \<open>\s\<close>.\<close>

definition isspace :: "char \<Rightarrow> bool" where
  "isspace c = (let n = code c in
     (9 \<le> n \<and> n \<le> 13) \<or> (28 \<le> n \<and> n \<le> 32) \<or> n = 133 \<or> n = 160)"

definition ascii_alpha :: "char \<Rightarrow> bool" where
  "ascii_alpha c = (let n = code c in (65 \<le> n \<and> n \<le> 90) \<or> (97 \<le> n \<and> n \<le> 122))"

definition ascii_alnum :: "char \<Rightarrow> bool" where
  "ascii_alnum c = (let n = code c in ascii_alpha c \<or> (48 \<le> n \<and> n \<le> 57))"

text \<open>The regular expression class \<open>\w\<close> of a \<open>str\<close> pattern: alphanumeric or underscore.\<close>

definition word_char :: "char \<Rightarrow> bool" where
  "word_char c = (let n = code c in
     ascii_alnum c \<or> n = 95 \<or> n = 170 \<or> n = 178 \<or> n = 179 \<or> n = 181 \<or> n = 185 \<or> n = 186
     \<or> (188 \<le> n \<and> n \<le> 190) \<or> (192 \<le> n \<and> n \<le> 214) \<or> (216 \<le> n \<and> n \<le> 246)
     \<or> 248 \<le> n)"

text \<open>\<open>str.lower\<close> and \<open>str.upper\<close> on one character.\<close>

definition lower_char :: "char \<Rightarrow> char" where
  "lower_char c = (let n = code c in
     if (65 \<le> n \<and> n \<le> 90) \<or> (192 \<le> n \<and> n \<le> 222 \<and> n \<noteq> 215) then char_of (n + 32) else c)"

definition upper_char :: "char \<Rightarrow> char" where
  "upper_char c = (let n = code c in
     if 97 \<le> n \<and> n \<le> 122 then char_of (n - 32) else c)"

definition lower :: "string \<Rightarrow> string" where
  "lower s = map lower_char s"

text \<open>\<open>str.strip()\<close>: white space is removed at both ends.\<close>

definition strip :: "string \<Rightarrow> string" where
  "strip s = rev (dropWhile isspace (rev (dropWhile isspace s)))"

text \<open>The maximal runs of characters that satisfy \<open>p\<close>, from left to right.\<close>

fun runs_aux :: "(char \<Rightarrow> bool) \<Rightarrow> string \<Rightarrow> string \<Rightarrow> string list" where
  "runs_aux p cur [] = (if cur = [] then [] else [rev cur])"
| "runs_aux p cur (c # cs) =
     (if p c then runs_aux p (c # cur) cs
      else if cur = [] then runs_aux p [] cs
      else rev cur # runs_aux p [] cs)"

definition char_runs :: "(char \<Rightarrow> bool) \<Rightarrow> string \<Rightarrow> string list" where
  "char_runs p s = runs_aux p [] s"

text \<open>\<open>str.split()\<close> without a separator: the maximal runs of non-space characters.\<close>

definition split_ws :: "string \<Rightarrow> string list" where
  "split_ws s = char_runs (\<lambda>c. \<not> isspace c) s"

text \<open>\<open>w in s\<close> on strings: \<open>w\<close> occurs in \<open>s\<close> as a contiguous substring.\<close>

fun starts_with :: "string \<Rightarrow> string \<Rightarrow> bool" where
  "starts_with s [] = True"
| "starts_with [] (c # w) = False"
| "starts_with (d # s) (c # w) = (d = c \<and> starts_with s w)"

fun contains :: "string \<Rightarrow> string \<Rightarrow> bool" where
  "contains [] w = (w = [])"
| "contains (c # s) w = (starts_with (c # s) w \<or> contains s w)"

text \<open>\<open>any(word in s for word in ws)\<close>.\<close>

definition any_in :: "string list \<Rightarrow> string \<Rightarrow> bool" where
  "any_in ws s = list_ex (contains s) ws"

text \<open>The slice \<open>xs[:n]\<close>; a negative \<open>n\<close> counts from the end.\<close>

definition slice_to :: "int \<Rightarrow> 'a list \<Rightarrow> 'a list" where
  "slice_to n xs = (if 0 \<le> n then take (nat n) xs else take (length xs - nat (- n)) xs)"

section \<open>KeywordExtractor\<close>

record ExtractedKeyword =
  keyword :: string
  score :: rat

definition basic_english_stopwords :: "string list" where
  "basic_english_stopwords =
    [''i'', ''me'', ''my'', ''myself'', ''we'', ''our'', ''ours'', ''ourselves'', ''you'', ''your'',
     ''yours'', ''yourself'', ''yourselves'', ''he'', ''him'', ''his'', ''himself'', ''she'', ''her'',
     ''hers'', ''herself'', ''it'', ''its'', ''itself'', ''they'', ''them'', ''their'', ''theirs'',
     ''themselves'', ''what'', ''which'', ''who'', ''whom'', ''this'', ''that'', ''these'', ''those'',
     ''am'', ''is'', ''are'', ''was'', ''were'', ''be'', ''been'', ''being'', ''have'', ''has'', ''had'',
     ''having'', ''do'', ''does'', ''did'', ''doing'', ''a'', ''an'', ''the'', ''and'', ''but'', ''if'',
     ''or'', ''because'', ''as'', ''until'', ''while'', ''of'', ''at'', ''by'', ''for'', ''with'',
     ''through'', ''during'', ''before'', ''after'', ''above'', ''below'', ''up'', ''down'', ''in'',
     ''out'', ''on'', ''off'', ''over'', ''under'', ''again'', ''further'', ''then'', ''once'']"

definition custom_stopwords :: "string list" where
  "custom_stopwords =
    [''http'', ''https'', ''www'', ''com'', ''org'', ''net'', ''html'', ''page'', ''site'',
     ''click'', ''here'', ''more'', ''read'', ''see'', ''view'', ''get'', ''new'', ''latest'']"

text \<open>
  \<open>KeywordExtractor.__init__\<close>: the stop word set. The argument is the word list of the
  NLTK corpus when that library is available (\<open>Some []\<close> when reading it fails) and
  \<open>None\<close> when it is not, in which case the built-in list is used.
\<close>

definition all_stopwords :: "string list option \<Rightarrow> string set" where
  "all_stopwords nltk =
     (case nltk of Some ws \<Rightarrow> set ws | None \<Rightarrow> set basic_english_stopwords)
       \<union> set custom_stopwords"

text \<open>
  \<open>re.findall(r'\b[a-zA-Z][a-zA-Z0-9]{2,}\b', s)\<close>: a match starts and ends at a word
  boundary, so the matches are the maximal runs of \<open>\w\<close> characters that consist of
  ASCII letters and digits only, begin with a letter and have at least 3 characters.
\<close>

definition is_token :: "string \<Rightarrow> bool" where
  "is_token w = (case w of [] \<Rightarrow> False
     | c # cs \<Rightarrow> ascii_alpha c \<and> list_all ascii_alnum cs \<and> 2 \<le> length cs)"

definition findall_tokens :: "string \<Rightarrow> string list" where
  "findall_tokens s = filter is_token (char_runs word_char s)"

text \<open>\<open>word_freq[word] = word_freq.get(word, 0) + 1\<close> on a dict, which keeps insertion order.\<close>

fun bump :: "(string \<times> nat) list \<Rightarrow> string \<Rightarrow> (string \<times> nat) list" where
  "bump [] w = [(w, 1)]"
| "bump ((k, n) # kvs) w = (if k = w then (k, n + 1) # kvs else (k, n) # bump kvs w)"

definition count_freq :: "string list \<Rightarrow> (string \<times> nat) list" where
  "count_freq ws = foldl bump [] ws"

text \<open>\<open>word_freq.get(word, 0)\<close>.\<close>

definition freq_get :: "(string \<times> nat) list \<Rightarrow> string \<Rightarrow> nat" where
  "freq_get kvs w = (case map_of kvs w of None \<Rightarrow> 0 | Some n \<Rightarrow> n)"

text \<open>The words that \<open>_extract_with_frequency\<close> counts: tokens of the lower-cased text
  that are not stop words.\<close>

definition content_words :: "string set \<Rightarrow> string \<Rightarrow> string list" where
  "content_words stop text = filter (\<lambda>w. w \<notin> stop) (findall_tokens (lower text))"

text \<open>
  \<open>KeywordExtractor._extract_with_frequency\<close>. \<open>sorted(..., reverse=True)\<close> is stable, as
  is \<open>sort_key\<close> on the negated key. Nothing in the body can raise on a \<open>str\<close>, so the
  \<open>except\<close> branch (which returns the empty list) is not taken.
\<close>

definition extract_with_frequency ::
    "string set \<Rightarrow> string \<Rightarrow> int \<Rightarrow> ExtractedKeyword list" where
  "extract_with_frequency stop text max_features =
     (let words = content_words stop text;
          word_freq = count_freq words;
          sorted_words = sort_key (\<lambda>(w, f). - int f) word_freq;
          max_freq = (case sorted_words of [] \<Rightarrow> 1 | (w, f) # _ \<Rightarrow> f)
      in map (\<lambda>(w, f). \<lparr>keyword = w, score = of_nat f / of_nat max_freq\<rparr>)
           (filter (\<lambda>(w, f). of_nat f / of_nat max_freq > (5 / 100 :: rat))
              (slice_to max_features sorted_words)))"

text \<open>
  \<open>KeywordExtractor._extract_with_tfidf\<close>. The vectorizer is a library: \<open>vectorize\<close> gives
  the feature names zipped with their scores for a text, or raises. An exception
  anywhere in the body falls back to the frequency count.
\<close>

definition extract_with_tfidf ::
    "(string \<Rightarrow> error + (string \<times> rat) list) \<Rightarrow> string set \<Rightarrow> string \<Rightarrow> int
      \<Rightarrow> ExtractedKeyword list" where
  "extract_with_tfidf vectorize stop text max_features =
     (case vectorize text of
        Inl e \<Rightarrow> extract_with_frequency stop text max_features
      | Inr keyword_scores \<Rightarrow>
          map (\<lambda>(w, s). \<lparr>keyword = w, score = s\<rparr>)
            (filter (\<lambda>(w, s). s > (1 / 100 :: rat))
               (slice_to max_features (sort_key (\<lambda>(w, s). - s) keyword_scores))))"

text \<open>\<open>KeywordExtractor.extract_keywords\<close>; \<open>sklearn\<close> is the vectorizer when the library
  is available (\<open>SKLEARN_AVAILABLE\<close>).\<close>

definition extract_keywords ::
    "(string \<Rightarrow> error + (string \<times> rat) list) option \<Rightarrow> string set \<Rightarrow> string \<Rightarrow> int
      \<Rightarrow> ExtractedKeyword list" where
  "extract_keywords sklearn stop text max_features =
     (if text = [] \<or> length (strip text) < 50 then []
      else case sklearn of
             Some vectorize \<Rightarrow> extract_with_tfidf vectorize stop text max_features
           | None \<Rightarrow> extract_with_frequency stop text max_features)"

section \<open>CategoryResolver\<close>

text \<open>\<open>CATEGORY_MAPPINGS\<close>: name, Google Trends id, YouTube id, in the order of the table.\<close>

definition CATEGORY_MAPPINGS :: "(string \<times> int \<times> string) list" where
  "CATEGORY_MAPPINGS =
    [(''Arts & Entertainment'', 3, ''24''),
     (''Autos & Vehicles'', 47, ''2''),
     (''Beauty & Fitness'', 44, ''26''),
     (''Books & Literature'', 22, ''27''),
     (''Business & Industrial'', 12, ''28''),
     (''Computers & Electronics'', 5, ''28''),
     (''Finance'', 7, ''28''),
     (''Food & Drink'', 71, ''26''),
     (''Games'', 8, ''20''),
     (''Health'', 45, ''26''),
     (''Hobbies & Leisure'', 65, ''24''),
     (''Home & Garden'', 11, ''26''),
     (''Internet & Telecom'', 13, ''28''),
     (''Jobs & Education'', 958, ''27''),
     (''Law & Government'', 19, ''25''),
     (''News'', 16, ''25''),
     (''People & Society'', 14, ''22''),
     (''Pets & Animals'', 66, ''15''),
     (''Real Estate'', 29, ''28''),
     (''Reference'', 533, ''27''),
     (''Science'', 174, ''28''),
     (''Shopping'', 18, ''22''),
     (''Sports'', 20, ''17''),
     (''Travel'', 67, ''19'')]"

text \<open>
  \<open>CategoryResolver._load_api_categories\<close>: the category list of the external service,
  or, when the call raises, the names and Trends ids of the built-in table.
\<close>

definition load_api_categories :: "error + (string \<times> int) list \<Rightarrow> (string \<times> int) list" where
  "load_api_categories api =
     (case api of
        Inr categories \<Rightarrow> categories
      | Inl e \<Rightarrow> map (\<lambda>(name, trends_id, youtube_id). (name, trends_id)) CATEGORY_MAPPINGS)"

text \<open>
  One iteration of the matching loop of \<open>resolve_trends_category\<close>, on the loop state
  \<open>(best_match, best_score, best_id)\<close>. A Python \<open>set\<close> of words is a duplicate-free list.
\<close>

definition overlap_step ::
    "string \<Rightarrow> string option \<times> rat \<times> int \<Rightarrow> string \<times> int \<Rightarrow> string option \<times> rat \<times> int" where
  "overlap_step text_lower best cat =
     (case best of (best_match, best_score, best_id) \<Rightarrow>
      case cat of (category_name, category_id) \<Rightarrow>
        let category_lower = lower category_name;
            text_words = remdups (split_ws text_lower);
            category_words = remdups (split_ws category_lower);
            overlap = length (filter (\<lambda>w. w \<in> set category_words) text_words)
        in if overlap > 0 then
             let score = of_nat overlap / of_nat (max (length text_words) (length category_words))
             in if score > best_score then (Some category_name, score, category_id)
                else (best_match, best_score, best_id)
           else (best_match, best_score, best_id))"

definition best_overlap :: "(string \<times> int) list \<Rightarrow> string \<Rightarrow> string option \<times> rat \<times> int" where
  "best_overlap trends_categories text_lower =
     foldl (overlap_step text_lower) (None, 0, 16) trends_categories"

text \<open>\<open>CategoryResolver.resolve_trends_category\<close>: category name, category id, confidence.\<close>

definition resolve_trends_category ::
    "(string \<times> int) list \<Rightarrow> string \<Rightarrow> string \<times> int \<times> rat" where
  "resolve_trends_category trends_categories text =
     (if text = [] \<or> trends_categories = [] then (''News'', 16, 0)
      else
        let text_lower = lower text in
        case best_overlap trends_categories text_lower of (best_match, best_score, best_id) \<Rightarrow>
          if best_score < 3 / 10 then
            if any_in [''tech'', ''software'', ''ai'', ''computer'', ''digital''] text_lower
              then (''Computers & Electronics'', 5, 6 / 10)
            else if any_in [''business'', ''marketing'', ''finance'', ''investment''] text_lower
              then (''Business & Industrial'', 12, 6 / 10)
            else if any_in [''health'', ''medical'', ''fitness'', ''wellness''] text_lower
              then (''Health'', 45, 6 / 10)
            else if any_in [''food'', ''recipe'', ''restaurant'', ''cooking''] text_lower
              then (''Food & Drink'', 71, 6 / 10)
            else (''News'', 16, 4 / 10)
          else
            ((case best_match of None \<Rightarrow> ''News'' | Some m \<Rightarrow> if m = [] then ''News'' else m),
             best_id, best_score))"

text \<open>\<open>CategoryResolver.resolve_youtube_category\<close>.\<close>

definition resolve_youtube_category :: "string \<Rightarrow> string" where
  "resolve_youtube_category category_name =
     (case map_of CATEGORY_MAPPINGS category_name of
        Some (trends_id, youtube_id) \<Rightarrow> youtube_id
      | None \<Rightarrow>
          let name_lower = lower category_name in
          if any_in [''tech'', ''computer'', ''science''] name_lower then ''28''
          else if any_in [''game'', ''gaming''] name_lower then ''20''
          else if any_in [''music'', ''entertainment''] name_lower then ''24''
          else if any_in [''news'', ''politics''] name_lower then ''25''
          else if any_in [''sport'', ''fitness''] name_lower then ''17''
          else ''24'')"

section \<open>ContentExtractor\<close>

text \<open>
  The HTTP client and the HTML parser are libraries. \<open>http_get\<close> is
  \<open>session.get(url, timeout=10)\<close> followed by \<open>raise_for_status()\<close> and gives the
  response text; \<open>parse_html\<close> builds the document tree and removes the script, style,
  nav, footer and aside elements; \<open>select_text\<close> is \<open>select_one(selector)\<close> followed by
  \<open>get_text\<close> on the element found (\<open>None\<close> when there is no such element);
  \<open>body_text\<close> is \<open>get_text\<close> on the whole document. Each of them may raise.
\<close>

record 'soup html_library =
  http_get :: "string \<Rightarrow> error + string"
  parse_html :: "string \<Rightarrow> error + 'soup"
  select_text :: "'soup \<Rightarrow> string \<Rightarrow> error + string option"
  body_text :: "'soup \<Rightarrow> error + string"

text \<open>The loop over the selectors: the text of the first region that exists, else \<open>''\<close>.\<close>

fun first_region ::
    "('soup \<Rightarrow> string \<Rightarrow> error + string option) \<Rightarrow> 'soup \<Rightarrow> string list \<Rightarrow> error + string" where
  "first_region sel soup [] = Inr []"
| "first_region sel soup (selector # rest) =
     (case sel soup selector of
        Inl e \<Rightarrow> Inl e
      | Inr (Some t) \<Rightarrow> Inr t
      | Inr None \<Rightarrow> first_region sel soup rest)"

text \<open>\<open>re.sub(r'\s+', ' ', s)\<close>: every maximal run of white space becomes one blank. The
  flag says that the previous character was white space.\<close>

fun collapse_aux :: "bool \<Rightarrow> string \<Rightarrow> string" where
  "collapse_aux prev [] = []"
| "collapse_aux prev (c # cs) =
     (if isspace c then (if prev then collapse_aux True cs else CHR '' '' # collapse_aux True cs)
      else c # collapse_aux False cs)"

definition collapse_ws :: "string \<Rightarrow> string" where
  "collapse_ws s = collapse_aux False s"

text \<open>The body of the \<open>try\<close> block of \<open>ContentExtractor.extract_content\<close>.\<close>

definition extract_content_body :: "'soup html_library \<Rightarrow> string \<Rightarrow> error + string" where
  "extract_content_body lib url =
     (case http_get lib url of
        Inl e \<Rightarrow> Inl e
      | Inr response_text \<Rightarrow>
          case parse_html lib response_text of
            Inl e \<Rightarrow> Inl e
          | Inr soup \<Rightarrow>
              case first_region (select_text lib) soup
                     [''main'', ''article'', ''.content'', ''#content'', ''.main''] of
                Inl e \<Rightarrow> Inl e
              | Inr region \<Rightarrow>
                  case (if region = [] then body_text lib soup else Inr region) of
                    Inl e \<Rightarrow> Inl e
                  | Inr main_content \<Rightarrow> Inr (take 10000 (strip (collapse_ws main_content))))"

text \<open>\<open>ContentExtractor.extract_content\<close>: \<open>except Exception\<close> returns the empty string.\<close>

definition extract_content :: "'soup html_library \<Rightarrow> string \<Rightarrow> error + string" where
  "extract_content lib url =
     (case extract_content_body lib url of Inl e \<Rightarrow> Inr [] | Inr content \<Rightarrow> Inr content)"

section \<open>TrendHarvesterDB\<close>

text \<open>
  A value stored in a column. SQLite columns hold values of any storage class, and
  \<open>update_run\<close> binds whatever its caller passes; a timestamp is a point of an abstract
  clock.
\<close>

datatype sqlval = SNull | SInt int | SReal rat | SText string | STime nat

text \<open>A row of the table \<open>runs\<close>. The column \<open>id\<close> is the field \<open>run_id\<close> and the column
  \<open>notes\<close> the field \<open>run_notes\<close>.\<close>

record run_row =
  run_id :: int
  url :: string
  detected_category_name :: sqlval
  detected_category_id :: sqlval
  youtube_category_id :: sqlval
  started_at :: nat
  finished_at :: sqlval
  status :: sqlval
  run_notes :: sqlval

text \<open>
  The six tables, each with its rows in insertion order. The rows of the five artifact
  tables start with the run id; the other columns follow in the order of the schema.
\<close>

record store =
  runs :: "run_row list"
  page_keywords :: "(int \<times> string \<times> rat) list"
  trends_interest :: "(int \<times> string \<times> string \<times> int) list"
  trends_related_queries :: "(int \<times> string \<times> string \<times> string \<times> int) list"
  youtube_videos :: "(int \<times> string \<times> string \<times> string \<times> string \<times> int \<times> int \<times> int \<times> string) list"
  news_articles :: "(int \<times> string \<times> string \<times> string \<times> string \<times> string) list"

definition empty_store :: store where
  "empty_store = \<lparr>runs = [], page_keywords = [], trends_interest = [],
     trends_related_queries = [], youtube_videos = [], news_articles = []\<rparr>"

text \<open>
  \<open>INTEGER PRIMARY KEY AUTOINCREMENT\<close>: one more than the largest id ever used. No
  operation deletes a run, so that is the largest id in the table.
\<close>

definition next_run_id :: "run_row list \<Rightarrow> int" where
  "next_run_id rows = 1 + foldr max (map run_id rows) 0"

text \<open>
  \<open>TrendHarvesterDB.create_run\<close>: the row is inserted with its url, the current time
  and the status \<open>running\<close>; the columns not named are NULL. The id of the new row is
  returned.
\<close>

definition create_run :: "store \<Rightarrow> string \<Rightarrow> nat \<Rightarrow> store \<times> int" where
  "create_run st run_url now =
     (let new_id = next_run_id (runs st);
          row = \<lparr>run_id = new_id, url = run_url, detected_category_name = SNull,
                 detected_category_id = SNull, youtube_category_id = SNull, started_at = now,
                 finished_at = SNull, status = SText ''running'', run_notes = SNull\<rparr>
      in (st\<lparr>runs := runs st @ [row]\<rparr>, new_id))"

definition allowed_fields :: "string list" where
  "allowed_fields = [''detected_category_name'', ''detected_category_id'',
     ''youtube_category_id'', ''finished_at'', ''status'', ''notes'']"

text \<open>\<open>SET field = ?\<close> on one row, for a field of the allow-list.\<close>

definition set_field :: "run_row \<Rightarrow> string \<times> sqlval \<Rightarrow> run_row" where
  "set_field r fv =
     (case fv of (field, v) \<Rightarrow>
        if field = ''detected_category_name'' then r\<lparr>detected_category_name := v\<rparr>
        else if field = ''detected_category_id'' then r\<lparr>detected_category_id := v\<rparr>
        else if field = ''youtube_category_id'' then r\<lparr>youtube_category_id := v\<rparr>
        else if field = ''finished_at'' then r\<lparr>finished_at := v\<rparr>
        else if field = ''status'' then r\<lparr>status := v\<rparr>
        else if field = ''notes'' then r\<lparr>run_notes := v\<rparr>
        else r)"

text \<open>
  \<open>TrendHarvesterDB.update_run\<close>. The keyword arguments are the pairs of \<open>kwargs\<close> in
  call order. The \<open>UPDATE\<close> statement changes every row whose id is \<open>rid\<close>.
\<close>

definition update_run :: "store \<Rightarrow> int \<Rightarrow> (string \<times> sqlval) list \<Rightarrow> store" where
  "update_run st rid kwargs =
     (if kwargs = [] then st
      else
        let fields = filter (\<lambda>(field, v). field \<in> set allowed_fields) kwargs
        in if fields = [] then st
           else st\<lparr>runs := map (\<lambda>r. if run_id r = rid then foldl set_field r fields else r)
                                (runs st)\<rparr>)"

text \<open>\<open>TrendHarvesterDB.save_keywords\<close>.\<close>

definition save_keywords :: "store \<Rightarrow> int \<Rightarrow> ExtractedKeyword list \<Rightarrow> store" where
  "save_keywords st rid keywords =
     st\<lparr>page_keywords := page_keywords st @ map (\<lambda>k. (rid, keyword k, score k)) keywords\<rparr>"








text \<open>\<open>TrendHarvester.get_run_status\<close>: status and notes, or \<open>not_found\<close>.\<close>

definition get_run_status :: "store \<Rightarrow> int \<Rightarrow> sqlval \<times> sqlval" where
  "get_run_status st rid =
     (case find (\<lambda>r. run_id r = rid) (runs st) of
        Some run \<Rightarrow> (status run, run_notes run)
      | None \<Rightarrow> (SText ''not_found'', SText ''Run not found''))"

section \<open>Fallback content synthesis\<close>

text \<open>
  \<open>urlparse\<close> and \<open>unquote\<close> are library functions: \<open>urlparse\<close> gives the network
  location and the path of a URL or raises (\<open>ValueError\<close> on a malformed URL).
\<close>

record urllib =
  urlparse :: "string \<Rightarrow> error + string \<times> string"
  unquote :: "string \<Rightarrow> string"

text \<open>\<open>s.replace(old, new)\<close> for a non-empty \<open>old\<close>: the occurrences are replaced from left
  to right without overlap. \<open>skip\<close> counts the characters of a match still to be dropped.\<close>

fun replace_aux :: "string \<Rightarrow> string \<Rightarrow> nat \<Rightarrow> string \<Rightarrow> string" where
  "replace_aux old new skip [] = []"
| "replace_aux old new skip (c # cs) =
     (if 0 < skip then replace_aux old new (skip - 1) cs
      else if starts_with (c # cs) old then new @ replace_aux old new (length old - 1) cs
      else c # replace_aux old new 0 cs)"

definition replace_all :: "string \<Rightarrow> string \<Rightarrow> string \<Rightarrow> string" where
  "replace_all old new s = replace_aux old new 0 s"

text \<open>\<open>str.title()\<close> on text whose cased characters are ASCII letters, which is what
  \<open>re.sub(r'[^a-zA-Z\s]', ' ', ...)\<close> leaves. The flag says that the previous character
  was a letter.\<close>

fun title_aux :: "bool \<Rightarrow> string \<Rightarrow> string" where
  "title_aux prev [] = []"
| "title_aux prev (c # cs) =
     (if ascii_alpha c then (if prev then lower_char c else upper_char c) # title_aux True cs
      else c # title_aux False cs)"

definition title :: "string \<Rightarrow> string" where
  "title s = title_aux False s"

text \<open>\<open>sep.join(parts)\<close>.\<close>

fun join :: "string \<Rightarrow> string list \<Rightarrow> string" where
  "join sep [] = []"
| "join sep [x] = x"
| "join sep (x # y # ys) = x @ sep @ join sep (y # ys)"

definition industry_keywords :: "(string \<times> string list) list" where
  "industry_keywords =
    [(''roofing'', [''roofing services'', ''roof repair'', ''roof installation'',
        ''roofing contractor'', ''storm damage repair'', ''residential roofing'',
        ''commercial roofing'', ''roof replacement'', ''roof maintenance'', ''gutter services'',
        ''emergency roof repair'']),
     (''dental'', [''dental services'', ''dentist'', ''oral health'', ''dental care'',
        ''teeth cleaning'', ''dental implants'', ''orthodontics'', ''cosmetic dentistry'',
        ''preventive care'']),
     (''law'', [''legal services'', ''attorney'', ''legal counsel'', ''litigation'',
        ''legal representation'', ''law firm'', ''legal advice'', ''court representation'']),
     (''medical'', [''medical services'', ''healthcare'', ''medical care'', ''patient care'',
        ''medical treatment'', ''health services'', ''clinical care'']),
     (''restaurant'', [''restaurant'', ''dining'', ''food service'', ''culinary'', ''menu'',
        ''cuisine'', ''dining experience'', ''food quality'']),
     (''auto'', [''automotive services'', ''car repair'', ''auto maintenance'',
        ''vehicle service'', ''automotive repair'', ''car care'']),
     (''construction'', [''construction services'', ''building contractor'',
        ''construction company'', ''residential construction'', ''commercial construction''])]"

text \<open>\<open>keyword.split()[0]\<close>; every keyword of the table has a first word.\<close>

definition first_word :: "string \<Rightarrow> string" where
  "first_word k = (case split_ws k of [] \<Rightarrow> [] | w # _ \<Rightarrow> w)"

text \<open>The detection loop: the first industry one of whose keywords starts with a word
  that occurs in the text.\<close>

definition detect_industry :: "string \<Rightarrow> (string \<times> string list) option" where
  "detect_industry full_text =
     find (\<lambda>(industry, keywords). list_ex (\<lambda>k. contains full_text (first_word k)) keywords)
       industry_keywords"

definition industry_extras :: "string \<Rightarrow> string list" where
  "industry_extras industry =
     (if industry = ''roofing'' then
        [''licensed roofing contractors'', ''quality workmanship'', ''customer satisfaction'',
         ''insurance claims assistance'', ''free estimates'', ''warranty protection'',
         ''storm damage assessment'', ''energy efficient roofing'', ''local roofing company'']
      else if industry = ''dental'' then
        [''family dentistry'', ''modern dental technology'', ''patient comfort'',
         ''dental insurance accepted'', ''emergency dental care'', ''smile transformation'']
      else if industry = ''law'' then
        [''experienced attorneys'', ''client advocacy'', ''legal expertise'',
         ''consultation services'', ''case evaluation'', ''professional representation'']
      else [])"

definition generic_business_keywords :: "string list" where
  "generic_business_keywords =
     [''professional services'', ''quality service'', ''customer focused'',
      ''experienced team'', ''reliable service'', ''business solutions'',
      ''customer satisfaction'', ''professional expertise'']"

text \<open>The body of the \<open>try\<close> block of \<open>_analyze_url_for_business_intelligence\<close>.\<close>

definition analyze_url_body :: "urllib \<Rightarrow> string \<Rightarrow> error + string" where
  "analyze_url_body lib u =
     (case urlparse lib (lower u) of
        Inl e \<Rightarrow> Inl e
      | Inr (netloc, raw_path) \<Rightarrow>
          let domain = replace_all ''www.'' [] netloc;
              path = unquote lib raw_path;
              business_name =
                title (map (\<lambda>c. if ascii_alpha c \<or> isspace c then c else CHR '' '')
                         (takeWhile (\<lambda>c. c \<noteq> CHR ''.'') domain));
              full_text = lower (domain @ '' '' @ path);
              content_parts =
                [business_name @ '' Professional Services'']
                @ (case detect_industry full_text of
                     Some (industry, keywords) \<Rightarrow> keywords @ industry_extras industry
                   | None \<Rightarrow> generic_business_keywords)
                @ (if contains path ''contact''
                   then [''contact information'', ''customer service'', ''business location'']
                   else [])
                @ (if contains path ''about''
                   then [''company information'', ''business history'', ''team expertise'']
                   else [])
                @ (if contains path ''services''
                   then [''service offerings'', ''professional solutions'', ''service quality'']
                   else [])
          in Inr (join ''. '' content_parts @ ''.''))"

text \<open>\<open>TrendHarvester._analyze_url_for_business_intelligence\<close>: \<open>except Exception\<close>
  returns a fixed paragraph.\<close>

definition analyze_url_for_business_intelligence :: "urllib \<Rightarrow> string \<Rightarrow> error + string" where
  "analyze_url_for_business_intelligence lib u =
     (case analyze_url_body lib u of
        Inr content \<Rightarrow> Inr content
      | Inl e \<Rightarrow> Inr (''Professional business services. Quality service provider. ''
                      @ ''Customer satisfaction. Reliable team.''))"

section \<open>TrendHarvester\<close>

text \<open>
  The \<open>pytrends\<close> client is a library. Building a payload fixes the batch of keywords
  that the two queries answer for, so the queries take the batch as their argument.
  \<open>interest_over_time\<close> gives the rows of the data frame as a date (already formatted
  as \<open>YYYY-MM-DD\<close>) with the interest value of each column; \<open>related_queries\<close> gives for
  each keyword its table of rising queries (query text and value) when there is one.
  A conversion that fails while the rows are written leaves no row of that statement
  behind (the connection is closed without a commit), which is the same as the query
  raising.
\<close>

record pytrends_client =
  build_payload :: "string list \<Rightarrow> int \<Rightarrow> error + unit"
  interest_over_time :: "string list \<Rightarrow> error + (string \<times> (string \<times> int) list) list"
  related_queries :: "string list \<Rightarrow> error + (string \<times> (string \<times> int) list option) list"

text \<open>
  The collaborators of the orchestrator, as it calls them: \<open>content_extractor\<close> is
  \<open>self.content_extractor.extract_content\<close>, \<open>keyword_extractor\<close> is
  \<open>self.keyword_extractor.extract_keywords\<close> with its default \<open>max_features\<close>,
  \<open>category_resolver\<close> and \<open>youtube_resolver\<close> are the two methods of
  \<open>self.category_resolver\<close>. A collaborator may raise. \<open>clock_start\<close> and \<open>clock_finish\<close>
  are the values of \<open>datetime.now()\<close> when the run is created and when it completes;
  \<open>format_2f\<close> is the format \<open>.2f\<close> of a float.
\<close>

record harvester =
  content_extractor :: "string \<Rightarrow> error + string"
  keyword_extractor :: "string \<Rightarrow> error + ExtractedKeyword list"
  category_resolver :: "string \<Rightarrow> error + string \<times> int \<times> rat"
  youtube_resolver :: "string \<Rightarrow> error + string"
  pytrends :: "pytrends_client option"
  url_library :: urllib
  youtube_api_key :: "string option"
  serpapi_key :: "string option"
  gnews_api_key :: "string option"
  clock_start :: nat
  clock_finish :: nat
  format_2f :: "rat \<Rightarrow> string"

text \<open>A committed write of the run: each constructor is one call that commits.\<close>

datatype db_write =
    UpdateRun int "(string \<times> sqlval) list"
  | SaveKeywords int "ExtractedKeyword list"
  | InsertInterest "(int \<times> string \<times> string \<times> int) list"
  | InsertRelated "(int \<times> string \<times> string \<times> string \<times> int) list"

fun apply_write :: "store \<Rightarrow> db_write \<Rightarrow> store" where
  "apply_write st (UpdateRun rid kwargs) = update_run st rid kwargs"
| "apply_write st (SaveKeywords rid keywords) = save_keywords st rid keywords"
| "apply_write st (InsertInterest rows) = st\<lparr>trends_interest := trends_interest st @ rows\<rparr>"
| "apply_write st (InsertRelated rows) =
     st\<lparr>trends_related_queries := trends_related_queries st @ rows\<rparr>"

text \<open>\<open>range(0, n, 5)\<close> and the batches \<open>keywords[i:i+5]\<close> of \<open>_analyze_trends\<close>.\<close>

definition range_step5 :: "nat \<Rightarrow> nat list" where
  "range_step5 n = map (\<lambda>k. 5 * k) [0 ..< (n + 4) div 5]"

definition batches :: "string list \<Rightarrow> string list list" where
  "batches keywords = map (\<lambda>i. take 5 (drop i keywords)) (range_step5 (length keywords))"

text \<open>The rows written for the interest data: for every date and every keyword of the
  batch that is a column of the row.\<close>

definition interest_rows ::
    "int \<Rightarrow> string list \<Rightarrow> (string \<times> (string \<times> int) list) list
      \<Rightarrow> (int \<times> string \<times> string \<times> int) list" where
  "interest_rows rid batch interest_data =
     concat (map (\<lambda>(date, row).
        concat (map (\<lambda>k. case map_of row k of None \<Rightarrow> [] | Some v \<Rightarrow> [(rid, k, date, v)]) batch))
       interest_data)"

text \<open>The rows written for the related queries: the first 10 rising queries of each
  keyword that has a table of them.\<close>

definition related_rows ::
    "int \<Rightarrow> (string \<times> (string \<times> int) list option) list
      \<Rightarrow> (int \<times> string \<times> string \<times> string \<times> int) list" where
  "related_rows rid related =
     concat (map (\<lambda>(k, rising).
        case rising of None \<Rightarrow> [] | Some queries \<Rightarrow> map (\<lambda>(q, v). (rid, k, q, ''rising'', v)) (take 10 queries))
       related)"

text \<open>The body of the loop of \<open>_analyze_trends\<close> for one batch, with its own \<open>try\<close>: the
  writes that are committed before the batch ends or raises.\<close>

definition process_batch :: "pytrends_client \<Rightarrow> int \<Rightarrow> int \<Rightarrow> string list \<Rightarrow> db_write list" where
  "process_batch p rid category_id batch =
     (case build_payload p batch (if category_id > 0 then category_id else 0) of
        Inl batch_error \<Rightarrow> []
      | Inr _ \<Rightarrow>
          case interest_over_time p batch of
            Inl batch_error \<Rightarrow> []
          | Inr interest_data \<Rightarrow>
              let w = (if interest_data \<noteq> []
                       then [InsertInterest (interest_rows rid batch interest_data)] else [])
              in case related_queries p batch of
                   Inl batch_error \<Rightarrow> w
                 | Inr related \<Rightarrow> w @ [InsertRelated (related_rows rid related)])"

text \<open>\<open>TrendHarvester._analyze_trends\<close>.\<close>

definition analyze_trends ::
    "pytrends_client option \<Rightarrow> int \<Rightarrow> string list \<Rightarrow> int \<Rightarrow> db_write list" where
  "analyze_trends client rid keywords category_id =
     (case client of
        None \<Rightarrow> []
      | Some p \<Rightarrow> concat (map (process_batch p rid category_id) (batches keywords)))"

text \<open>\<open>_analyze_youtube\<close> and \<open>_analyze_news\<close> only log a message.\<close>

definition analyze_youtube :: "int \<Rightarrow> string \<Rightarrow> string list \<Rightarrow> db_write list" where
  "analyze_youtube rid category_id keywords = []"

definition analyze_news :: "int \<Rightarrow> string \<Rightarrow> string list \<Rightarrow> db_write list" where
  "analyze_news rid category keywords = []"

text \<open>Truth of an optional string: neither \<open>None\<close> nor empty.\<close>

definition truthy :: "string option \<Rightarrow> bool" where
  "truthy v = (case v of None \<Rightarrow> False | Some s \<Rightarrow> s \<noteq> [])"

text \<open>Step 1 of \<open>run_analysis\<close>: the content that reaches the test \<open>if not content\<close>.\<close>

definition get_content :: "harvester \<Rightarrow> string \<Rightarrow> error + string" where
  "get_content h u =
     (case content_extractor h u of
        Inl e \<Rightarrow> Inl e
      | Inr content \<Rightarrow>
          if content = [] \<or> length (strip content) < 50
          then analyze_url_for_business_intelligence (url_library h) u
          else Inr content)"

text \<open>
  The \<open>try\<close> block of \<open>run_analysis\<close>: the writes it commits, in order, and how it ends,
  with \<open>Inr ()\<close> for a \<open>return\<close> and \<open>Inl e\<close> for an exception that leaves the block.
  In this section the database accepts every call, so the exceptions are those of the
  collaborators; a database that refuses calls is the subject of a later section.
\<close>

definition analysis_body :: "harvester \<Rightarrow> int \<Rightarrow> string \<Rightarrow> db_write list \<times> (error + unit)" where
  "analysis_body h rid u =
     (case get_content h u of
        Inl e \<Rightarrow> ([], Inl e)
      | Inr content \<Rightarrow>
          if content = [] then
            ([UpdateRun rid [(''status'', SText ''failed''),
                             (''notes'', SText ''Could not extract or analyze content'')]], Inr ())
          else
            case keyword_extractor h content of
              Inl e \<Rightarrow> ([], Inl e)
            | Inr keywords \<Rightarrow>
                if keywords = [] then
                  ([UpdateRun rid [(''status'', SText ''failed''),
                                   (''notes'', SText ''No keywords extracted'')]], Inr ())
                else
                  let w1 = [SaveKeywords rid keywords];
                      category_text = join '' '' (map keyword (take 10 keywords))
                  in case category_resolver h category_text of
                       Inl e \<Rightarrow> (w1, Inl e)
                     | Inr (category_name, trends_id, confidence) \<Rightarrow>
                         case youtube_resolver h category_name of
                           Inl e \<Rightarrow> (w1, Inl e)
                         | Inr youtube_id \<Rightarrow>
                             let w2 = w1 @ [UpdateRun rid
                                   [(''detected_category_name'', SText category_name),
                                    (''detected_category_id'', SInt trends_id),
                                    (''youtube_category_id'', SText youtube_id)]];
                                 seed_keywords = map keyword (take 7 keywords);
                                 w3 = w2 @ analyze_trends (pytrends h) rid seed_keywords trends_id;
                                 w4 = w3 @ (if truthy (youtube_api_key h)
                                            then analyze_youtube rid youtube_id (take 3 seed_keywords)
                                            else []);
                                 w5 = w4 @ (if truthy (serpapi_key h) \<or> truthy (gnews_api_key h)
                                            then analyze_news rid category_name (take 3 seed_keywords)
                                            else [])
                             in (w5 @ [UpdateRun rid
                                   [(''status'', SText ''completed''),
                                    (''finished_at'', STime (clock_finish h)),
                                    (''notes'', SText (''Analysis completed with ''
                                        @ format_2f h confidence @ '' category confidence''))]],
                                 Inr ()))"

text \<open>The writes of \<open>run_analysis\<close> after the run is created: those of the \<open>try\<close> block,
  then the write of the \<open>except\<close> block when an exception left it.\<close>

definition analysis_writes :: "harvester \<Rightarrow> int \<Rightarrow> string \<Rightarrow> db_write list" where
  "analysis_writes h rid u =
     (case analysis_body h rid u of
        (ws, Inr _) \<Rightarrow> ws
      | (ws, Inl e) \<Rightarrow> ws @ [UpdateRun rid [(''status'', SText ''failed''), (''notes'', SText e)]])"

text \<open>\<open>TrendHarvester.run_analysis\<close>: the store after the run and the run id returned.\<close>

definition run_analysis :: "harvester \<Rightarrow> store \<Rightarrow> string \<Rightarrow> store \<times> int" where
  "run_analysis h st u =
     (case create_run st u (clock_start h) of
        (st1, rid) \<Rightarrow> (foldl apply_write st1 (analysis_writes h rid u), rid))"

text \<open>The stores that a reader can observe while \<open>run_analysis\<close> runs: the store after
  the run is created, then after each committed write.\<close>

fun observable :: "store \<Rightarrow> db_write list \<Rightarrow> store list" where
  "observable st [] = [st]"
| "observable st (w # ws) = st # observable (apply_write st w) ws"

definition run_analysis_states :: "harvester \<Rightarrow> store \<Rightarrow> string \<Rightarrow> store list" where
  "run_analysis_states h st u =
     (case create_run st u (clock_start h) of
        (st1, rid) \<Rightarrow> observable st1 (analysis_writes h rid u))"

text \<open>
  \<open>TrendHarvester.__init__\<close>: the collaborators are the components above. The keyword
  extractor and the category resolver do not raise.
\<close>

definition TrendHarvester ::
    "'soup html_library \<Rightarrow> (string \<Rightarrow> error + (string \<times> rat) list) option \<Rightarrow> string list option
      \<Rightarrow> error + (string \<times> int) list \<Rightarrow> pytrends_client option \<Rightarrow> urllib
      \<Rightarrow> string option \<Rightarrow> string option \<Rightarrow> string option \<Rightarrow> nat \<Rightarrow> nat \<Rightarrow> (rat \<Rightarrow> string)
      \<Rightarrow> harvester" where
  "TrendHarvester html sklearn nltk api_categories client lib yt serp gnews t0 t1 fmt =
     \<lparr>content_extractor = extract_content html,
      keyword_extractor = (\<lambda>text. Inr (extract_keywords sklearn (all_stopwords nltk) text 25)),
      category_resolver =
        (\<lambda>text. Inr (resolve_trends_category (load_api_categories api_categories) text)),
      youtube_resolver = (\<lambda>name. Inr (resolve_youtube_category name)),
      pytrends = client, url_library = lib,
      youtube_api_key = yt, serpapi_key = serp, gnews_api_key = gnews,
      clock_start = t0, clock_finish = t1, format_2f = fmt\<rparr>"

section \<open>TrendHarvester on a database that can refuse a call\<close>

text \<open>
  Every method of \<open>TrendHarvesterDB\<close>, and every write inside \<open>_analyze_trends\<close>,
  opens a connection to the database file, executes its statements and commits; each
  such call may raise (\<open>sqlite3.OperationalError\<close> when the file is locked or the disk
  is full), and a call that raises commits nothing. The store calls of one
  \<open>run_analysis\<close> are numbered from 0, the call of \<open>create_run\<close>; \<open>faults n\<close> is the
  exception that call number \<open>n\<close> raises, or \<open>None\<close> when the database accepts it.
  The state is the store together with the number of the next call.
\<close>

type_synonym faults = "nat \<Rightarrow> error option"

definition db_call :: "faults \<Rightarrow> store \<times> nat \<Rightarrow> db_write \<Rightarrow> (store \<times> nat) \<times> error option" where
  "db_call f s w =
     (case s of (st, n) \<Rightarrow>
        (case f n of
           Some e \<Rightarrow> ((st, Suc n), Some e)
         | None \<Rightarrow> ((apply_write st w, Suc n), None)))"

text \<open>A store call in the \<open>try\<close> block of \<open>run_analysis\<close>: its exception leaves the block.\<close>

definition db_step :: "faults \<Rightarrow> store \<times> nat \<Rightarrow> db_write \<Rightarrow> (store \<times> nat) \<times> (error + unit)" where
  "db_step f s w =
     (case db_call f s w of
        (s', Some e) \<Rightarrow> (s', Inl e)
      | (s', None) \<Rightarrow> (s', Inr ()))"

text \<open>The writes of one batch of \<open>_analyze_trends\<close>, inside the \<open>try\<close> of the batch: the
  first one that raises ends the batch, and the loop continues with the next batch.\<close>

fun run_batch_db :: "faults \<Rightarrow> store \<times> nat \<Rightarrow> db_write list \<Rightarrow> store \<times> nat" where
  "run_batch_db f s [] = s"
| "run_batch_db f s (w # ws) =
     (case db_call f s w of
        (s', Some batch_error) \<Rightarrow> s'
      | (s', None) \<Rightarrow> run_batch_db f s' ws)"

definition analyze_trends_db ::
    "faults \<Rightarrow> pytrends_client option \<Rightarrow> int \<Rightarrow> string list \<Rightarrow> int \<Rightarrow> store \<times> nat
      \<Rightarrow> store \<times> nat" where
  "analyze_trends_db f client rid keywords category_id s =
     (case client of
        None \<Rightarrow> s
      | Some p \<Rightarrow>
          foldl (\<lambda>s' batch. run_batch_db f s' (process_batch p rid category_id batch)) s
            (batches keywords))"

text \<open>The \<open>try\<close> block of \<open>run_analysis\<close> on such a database: the state it leaves, and
  \<open>Inr ()\<close> for a \<open>return\<close> or \<open>Inl e\<close> for an exception that leaves the block.\<close>

definition analysis_body_db ::
    "faults \<Rightarrow> harvester \<Rightarrow> int \<Rightarrow> string \<Rightarrow> store \<times> nat \<Rightarrow> (store \<times> nat) \<times> (error + unit)" where
  "analysis_body_db f h rid u s =
     (case get_content h u of
        Inl e \<Rightarrow> (s, Inl e)
      | Inr content \<Rightarrow>
         (if content = [] then
            db_step f s (UpdateRun rid [(''status'', SText ''failed''),
                           (''notes'', SText ''Could not extract or analyze content'')])
          else
           (case keyword_extractor h content of
              Inl e \<Rightarrow> (s, Inl e)
            | Inr keywords \<Rightarrow>
               (if keywords = [] then
                  db_step f s (UpdateRun rid [(''status'', SText ''failed''),
                                 (''notes'', SText ''No keywords extracted'')])
                else
                 (case db_step f s (SaveKeywords rid keywords) of
                    (s1, Inl e) \<Rightarrow> (s1, Inl e)
                  | (s1, Inr _) \<Rightarrow>
                     (case category_resolver h (join '' '' (map keyword (take 10 keywords))) of
                        Inl e \<Rightarrow> (s1, Inl e)
                      | Inr (category_name, trends_id, confidence) \<Rightarrow>
                         (case youtube_resolver h category_name of
                            Inl e \<Rightarrow> (s1, Inl e)
                          | Inr youtube_id \<Rightarrow>
                             (case db_step f s1 (UpdateRun rid
                                     [(''detected_category_name'', SText category_name),
                                      (''detected_category_id'', SInt trends_id),
                                      (''youtube_category_id'', SText youtube_id)]) of
                                (s2, Inl e) \<Rightarrow> (s2, Inl e)
                              | (s2, Inr _) \<Rightarrow>
                                 db_step f
                                   (analyze_trends_db f (pytrends h) rid
                                      (map keyword (take 7 keywords)) trends_id s2)
                                   (UpdateRun rid
                                     [(''status'', SText ''completed''),
                                      (''finished_at'', STime (clock_finish h)),
                                      (''notes'', SText (''Analysis completed with ''
                                          @ format_2f h confidence
                                          @ '' category confidence''))])))))))))"

text \<open>
  \<open>TrendHarvester.run_analysis\<close> on such a database: the store it leaves, and the run
  id returned or the exception that leaves \<open>run_analysis\<close>. The call of \<open>create_run\<close>
  is outside the \<open>try\<close> block; the \<open>except\<close> block makes one more store call, which
  nothing guards.
\<close>

definition run_analysis_db :: "faults \<Rightarrow> harvester \<Rightarrow> store \<Rightarrow> string \<Rightarrow> store \<times> (error + int)" where
  "run_analysis_db f h st u =
     (case f 0 of
        Some e \<Rightarrow> (st, Inl e)
      | None \<Rightarrow>
         (case create_run st u (clock_start h) of
            (st1, rid) \<Rightarrow>
              (case analysis_body_db f h rid u (st1, 1) of
                 (s, Inr _) \<Rightarrow> (fst s, Inr rid)
               | (s, Inl e) \<Rightarrow>
                  (case db_call f s (UpdateRun rid [(''status'', SText ''failed''),
                                                     (''notes'', SText e)]) of
                     (s', None) \<Rightarrow> (fst s', Inr rid)
                   | (s', Some e') \<Rightarrow> (fst s', Inl e')))))"

section \<open>The results endpoint\<close>






section \<open>Example configurations\<close>

text \<open>An HTML library whose every request is refused.\<close>

definition offline_library :: "unit html_library" where
  "offline_library = \<lparr>http_get = (\<lambda>u. Inl ''connection refused''), parse_html = (\<lambda>t. Inr ()),
     select_text = (\<lambda>soup selector. Inr None), body_text = (\<lambda>soup. Inr [])\<rparr>"

text \<open>The store after one run was created in an empty store.\<close>

definition example_store :: store where
  "example_store = fst (create_run empty_store ''https://example.com'' 0)"

text \<open>A URL library that cannot parse the URL it is given.\<close>

definition example_urllib :: urllib where
  "example_urllib = \<lparr>urlparse = (\<lambda>u. Inl ''Invalid IPv6 URL''), unquote = (\<lambda>p. p)\<rparr>"

text \<open>A trends client whose interest query raises for every batch that starts with
  the keyword \<open>roofing\<close> and answers every other batch with one row.\<close>

definition example_pytrends :: pytrends_client where
  "example_pytrends =
     \<lparr>build_payload = (\<lambda>batch cat. Inr ()),
      interest_over_time = (\<lambda>batch.
         if take 1 batch = [''roofing''] then Inl ''429 Too Many Requests''
         else Inr [(''2024-05-01'', map (\<lambda>k. (k, 40)) batch)]),
      related_queries = (\<lambda>batch. Inr [])\<rparr>"

definition example_keywords :: "ExtractedKeyword list" where
  "example_keywords =
     map (\<lambda>w. \<lparr>keyword = w, score = 1\<rparr>)
       [''roofing'', ''repair'', ''installation'', ''contractor'', ''storm'', ''gutter'',
        ''warranty'', ''estimates'']"

text \<open>A harvester with fixed collaborators: extraction yields nothing, eight keywords
  are found, and the trends client is the one above.\<close>

definition example_harvester :: harvester where
  "example_harvester =
     \<lparr>content_extractor = (\<lambda>u. Inr []),
      keyword_extractor = (\<lambda>text. Inr example_keywords),
      category_resolver = (\<lambda>text. Inr (''Business & Industrial'', 12, 6 / 10)),
      youtube_resolver = (\<lambda>name. Inr ''28''),
      pytrends = Some example_pytrends,
      url_library = example_urllib,
      youtube_api_key = None, serpapi_key = None, gnews_api_key = None,
      clock_start = 100, clock_finish = 200,
      format_2f = (\<lambda>r. ''0.60'')\<rparr>"

text \<open>The same harvester with a keyword extractor that finds no keyword, and with one
  that raises.\<close>

definition no_keywords_harvester :: harvester where
  "no_keywords_harvester = example_harvester\<lparr>keyword_extractor := (\<lambda>text. Inr [])\<rparr>"

definition raising_harvester :: harvester where
  "raising_harvester = example_harvester\<lparr>keyword_extractor := (\<lambda>text. Inl ''out of memory'')\<rparr>"

text \<open>A database that accepts every call; one that is locked for the first write of
  a run; and one that is locked for the first two writes.\<close>

definition no_faults :: faults where
  "no_faults = (\<lambda>n. None)"



section \<open>Vocabulary of the run life cycle\<close>

text \<open>Status, finish time and notes of the run \<open>rid\<close> in a store, when it exists.\<close>

definition run_state :: "store \<Rightarrow> int \<Rightarrow> (sqlval \<times> sqlval \<times> sqlval) option" where
  "run_state st rid =
     map_option (\<lambda>r. (status r, finished_at r, run_notes r))
       (find (\<lambda>r. run_id r = rid) (runs st))"

text \<open>One step forward along \<open>pending \<rightarrow> running \<rightarrow> {completed, failed}\<close>, or no move.\<close>

definition forward :: "sqlval \<Rightarrow> sqlval \<Rightarrow> bool" where
  "forward a b =
     (a = b \<or> (a = SText ''pending'' \<and> b = SText ''running'')
      \<or> (a = SText ''running'' \<and> (b = SText ''completed'' \<or> b = SText ''failed'')))"

definition terminal :: "sqlval \<Rightarrow> bool" where
  "terminal a = (a = SText ''completed'' \<or> a = SText ''failed'')"

text \<open>A write that names none of the columns status, finished\_at and notes.\<close>

fun quiet :: "db_write \<Rightarrow> bool" where
  "quiet (UpdateRun rid kwargs) =
     (''status'' \<notin> fst ` set kwargs \<and> ''finished_at'' \<notin> fst ` set kwargs
      \<and> ''notes'' \<notin> fst ` set kwargs)"
| "quiet w = True"

text \<open>The two writes that end a run: \<open>update_run(run_id, status='failed', notes=...)\<close>
  and \<open>update_run(run_id, status='completed', finished_at=..., notes=...)\<close>.\<close>

definition failed_write :: "int \<Rightarrow> error \<Rightarrow> db_write" where
  "failed_write rid e = UpdateRun rid [(''status'', SText ''failed''), (''notes'', SText e)]"

definition completed_write :: "int \<Rightarrow> nat \<Rightarrow> string \<Rightarrow> db_write" where
  "completed_write rid t note = UpdateRun rid [(''status'', SText ''completed''),
     (''finished_at'', STime t), (''notes'', SText note)]"

section \<open>Properties of the keyword extractor\<close>

lemma length_strip_le: "length (strip s) \<le> length s"
proof -
  have "length (strip s) \<le> length (dropWhile isspace s)"
    unfolding strip_def using length_dropWhile_le [of isspace "rev (dropWhile isspace s)"]
    by simp
  also have "\<dots> \<le> length s"
    by (rule length_dropWhile_le)
  finally show ?thesis .
qed

text \<open>
  Claim C5. For every text shorter than 50 characters and every \<open>max_features\<close>, whichever
  scoring algorithm is configured, \<open>extract_keywords\<close> returns the empty list.
\<close>

theorem extract_keywords_short_text:
  "length text < 50 \<Longrightarrow> extract_keywords sklearn stop text max_features = []"
  using length_strip_le [of "text"] by (simp add: extract_keywords_def)

theorem extract_keywords_short_text_witness:
  "length ''too short to score'' < 50
   \<and> extract_keywords None (all_stopwords None) ''too short to score'' 25 = []"
  using extract_keywords_short_text [of "''too short to score''" None "all_stopwords None" 25]
  by simp

subsection \<open>The frequency count\<close>

lemmas char_defs = code_def isspace_def ascii_alpha_def ascii_alnum_def word_char_def
  lower_char_def upper_char_def

lemma freq_get_bump: "freq_get (bump kvs w) v = freq_get kvs v + (if v = w then 1 else 0)"
  by (induction kvs w rule: bump.induct) (auto simp: freq_get_def)

lemma keys_bump: "fst ` set (bump kvs w) = insert w (fst ` set kvs)"
  by (induction kvs w rule: bump.induct) auto

lemma distinct_bump: "distinct (map fst kvs) \<Longrightarrow> distinct (map fst (bump kvs w))"
proof (induction kvs w rule: bump.induct)
  case (1 w)
  then show ?case by simp
next
  case (2 k n kvs w)
  then show ?case using keys_bump [of kvs w] by (auto simp: image_iff)
qed

lemma freq_get_foldl_bump: "freq_get (foldl bump acc ws) v = freq_get acc v + count_list ws v"
  by (induction ws arbitrary: acc) (auto simp: freq_get_bump)

lemma keys_foldl_bump: "fst ` set (foldl bump acc ws) = fst ` set acc \<union> set ws"
  by (induction ws arbitrary: acc) (auto simp: keys_bump)

lemma distinct_foldl_bump:
  "distinct (map fst acc) \<Longrightarrow> distinct (map fst (foldl bump acc ws))"
  by (induction ws arbitrary: acc) (auto simp: distinct_bump)

lemma count_freq_entry:
  assumes "(w, f) \<in> set (count_freq ws)"
  shows "f = count_list ws w" and "w \<in> set ws"
proof -
  have d: "distinct (map fst (count_freq ws))"
    unfolding count_freq_def by (rule distinct_foldl_bump) simp
  from d assms have "map_of (count_freq ws) w = Some f" by simp
  then have "freq_get (count_freq ws) w = f" by (simp add: freq_get_def)
  moreover have "freq_get (count_freq ws) w = freq_get [] w + count_list ws w"
    unfolding count_freq_def by (rule freq_get_foldl_bump)
  moreover have "freq_get [] w = 0" by (simp add: freq_get_def)
  ultimately show "f = count_list ws w" by simp
  from assms have "w \<in> fst ` set (count_freq ws)" by force
  then show "w \<in> set ws" unfolding count_freq_def by (simp add: keys_foldl_bump)
qed

lemma count_freq_has:
  assumes "w \<in> set ws"
  shows "(w, count_list ws w) \<in> set (count_freq ws)"
proof -
  from assms have "w \<in> fst ` set (count_freq ws)"
    unfolding count_freq_def by (simp add: keys_foldl_bump)
  then obtain f where f: "(w, f) \<in> set (count_freq ws)" by auto
  with count_freq_entry(1) [OF f] show ?thesis by simp
qed

lemma count_freq_nonempty: "ws \<noteq> [] \<Longrightarrow> count_freq ws \<noteq> []"
  using count_freq_has [of "hd ws" ws] by auto

lemma sorted_desc_head:
  assumes "sort_key (\<lambda>(w, f). - int f) kvs = (w0, f0) # rest" and "(w, f) \<in> set kvs"
  shows "f \<le> f0"
proof -
  let ?k = "\<lambda>(w, f :: nat). - int f"
  have "sorted (map ?k (sort_key ?k kvs))" by (rule sorted_sort_key)
  with assms(1) have "\<forall>x \<in> set rest. ?k (w0, f0) \<le> ?k x" by simp
  moreover from assms have "(w, f) = (w0, f0) \<or> (w, f) \<in> set rest"
    using set_sort [of ?k kvs] by auto
  ultimately show ?thesis by auto
qed

lemma sorted_desc_wrt:
  "sorted_wrt (\<lambda>a b. snd b \<le> snd a)
     (sort_key (\<lambda>(w, f). - int f) (kvs :: (string \<times> nat) list))"
proof -
  let ?k = "\<lambda>(w, f :: nat). - int f"
  have "sorted (map ?k (sort_key ?k kvs))" by (rule sorted_sort_key)
  then have "sorted_wrt (\<lambda>a b. ?k a \<le> ?k b) (sort_key ?k kvs)"
    by (simp add: sorted_map)
  then show ?thesis
    by (rule sorted_wrt_mono_rel [rotated]) auto
qed

lemma slice_to_sorted_wrt: "sorted_wrt R xs \<Longrightarrow> sorted_wrt R (slice_to n xs)"
  by (simp add: slice_to_def sorted_wrt_take)

lemma slice_to_subset: "set (slice_to n xs) \<subseteq> set xs"
  by (auto simp: slice_to_def dest: in_set_takeD)

lemma slice_to_Cons: "0 < n \<Longrightarrow> slice_to n (x # xs) = x # slice_to (n - 1) xs"
  by (auto simp: slice_to_def nat_diff_distrib' take_Cons')

lemma roof_lower: "lower ''roof repair roof'' = ''roof repair roof''"
  by (simp add: lower_def char_defs)

lemma roof_runs: "char_runs word_char ''roof repair roof'' = [''roof'', ''repair'', ''roof'']"
  by (simp add: char_runs_def char_defs)

lemma roof_tokens: "is_token ''roof''" "is_token ''repair''"
  by (simp_all add: is_token_def char_defs)

lemma roof_not_stop: "''roof'' \<notin> all_stopwords None" "''repair'' \<notin> all_stopwords None"
  by (simp_all add: all_stopwords_def basic_english_stopwords_def custom_stopwords_def)

lemma roof_words:
  "content_words (all_stopwords None) ''roof repair roof'' = [''roof'', ''repair'', ''roof'']"
  by (simp add: content_words_def findall_tokens_def roof_lower roof_runs roof_tokens
      roof_not_stop)

text \<open>
  Claim C6, as stated, for every \<open>max_features\<close>: a text with a word to count gives a
  list whose first entry is the most frequent word. It fails when \<open>max_features\<close> is 0:
  the slice \<open>sorted_words[:0]\<close> is empty, so nothing is returned.
\<close>

theorem extract_with_frequency_zero_features:
  "content_words (all_stopwords None) ''roof repair roof'' \<noteq> []
   \<and> extract_with_frequency (all_stopwords None) ''roof repair roof'' 0 = []"
  by (simp add: roof_words extract_with_frequency_def slice_to_def)

text \<open>
  Claim C6, amended. Let \<open>ws\<close> be the words that the frequency algorithm counts in a
  text (tokens of at least 3 characters that are not stop words). If there is such a
  word and \<open>max_features\<close> is at least 1, the list returned is not empty; its first
  entry has score exactly 1 and is a word of \<open>ws\<close> that no word of \<open>ws\<close> occurs more
  often than; the entries are in descending order of their frequency in \<open>ws\<close>; and
  every score returned is above 0.05.
\<close>

theorem extract_with_frequency_ranked:
  assumes ws: "ws = content_words stop text" and ne: "ws \<noteq> []" and mf: "0 < max_features"
  shows "\<exists>top rest. extract_with_frequency stop text max_features = top # rest
           \<and> score top = 1
           \<and> keyword top \<in> set ws
           \<and> (\<forall>w \<in> set ws. count_list ws w \<le> count_list ws (keyword top))
           \<and> sorted_wrt (\<lambda>a b. count_list ws (keyword b) \<le> count_list ws (keyword a))
                (top # rest)
           \<and> (\<forall>k \<in> set (top # rest). 5 / 100 < score k)"
proof -
  let ?key = "\<lambda>(w, f :: nat). - int f"
  define srt where "srt = sort_key ?key (count_freq ws)"
  have "length srt = length (count_freq ws)" by (simp add: srt_def)
  with count_freq_nonempty [OF ne] obtain w0 f0 tl where srt: "srt = (w0, f0) # tl"
    by (cases srt) auto
  have set_srt: "set srt = set (count_freq ws)" by (simp add: srt_def)
  have mem: "f = count_list ws w \<and> w \<in> set ws" if "(w, f) \<in> set srt" for w f
    using that count_freq_entry [of w f ws] set_srt by simp
  have w0: "f0 = count_list ws w0" "w0 \<in> set ws" using mem [of w0 f0] srt by simp_all
  then have f0: "0 < f0" using count_list_0_iff [of ws w0] by auto
  define P where "P = (\<lambda>(w :: string, f :: nat). (of_nat f :: rat) / of_nat f0 > 5 / 100)"
  define mk where
    "mk = (\<lambda>(w :: string, f :: nat). \<lparr>keyword = w, score = (of_nat f :: rat) / of_nat f0\<rparr>)"
  define kept where "kept = filter P (slice_to max_features srt)"
  have res: "extract_with_frequency stop text max_features = map mk kept"
    using srt unfolding extract_with_frequency_def ws [symmetric] kept_def P_def mk_def srt_def
    by (simp add: Let_def)
  have P0: "P (w0, f0)" using f0 by (simp add: P_def)
  have kept: "kept = (w0, f0) # filter P (slice_to (max_features - 1) tl)"
    using mf P0 by (simp add: kept_def srt slice_to_Cons)
  have sub: "set kept \<subseteq> set srt"
    using slice_to_subset [of max_features srt] by (auto simp: kept_def)
  have top_max: "count_list ws w \<le> count_list ws w0" if "w \<in> set ws" for w
  proof -
    from that have "(w, count_list ws w) \<in> set (count_freq ws)" by (rule count_freq_has)
    with sorted_desc_head [of "count_freq ws" w0 f0 tl] srt w0(1) show ?thesis
      by (simp add: srt_def)
  qed
  have "sorted_wrt (\<lambda>a b. snd b \<le> snd a) kept"
    unfolding kept_def srt_def
    by (intro sorted_wrt_filter slice_to_sorted_wrt sorted_desc_wrt)
  then have "sorted_wrt (\<lambda>a b. count_list ws (keyword (mk b)) \<le> count_list ws (keyword (mk a)))
               kept"
  proof (rule sorted_wrt_mono_rel [rotated])
    fix a b assume "a \<in> set kept" "b \<in> set kept" "snd b \<le> snd a"
    moreover from this sub have "snd a = count_list ws (fst a)" "snd b = count_list ws (fst b)"
      using mem [of "fst a" "snd a"] mem [of "fst b" "snd b"] by auto
    ultimately show "count_list ws (keyword (mk b)) \<le> count_list ws (keyword (mk a))"
      by (simp add: mk_def case_prod_beta)
  qed
  then have srtd:
    "sorted_wrt (\<lambda>a b. count_list ws (keyword b) \<le> count_list ws (keyword a)) (map mk kept)"
    by (simp add: sorted_wrt_map)
  have thr: "5 / 100 < score k" if "k \<in> set (map mk kept)" for k
  proof -
    from that obtain x where "x \<in> set kept" "k = mk x" by auto
    then show ?thesis by (simp add: kept_def P_def mk_def case_prod_beta)
  qed
  have top: "map mk kept = mk (w0, f0) # map mk (filter P (slice_to (max_features - 1) tl))"
    by (simp add: kept)
  have "score (mk (w0, f0)) = 1" "keyword (mk (w0, f0)) = w0" using f0 by (simp_all add: mk_def)
  with top srtd thr top_max w0(2) res show ?thesis
    by (intro exI [of _ "mk (w0, f0)"]
        exI [of _ "map mk (filter P (slice_to (max_features - 1) tl))"]) auto
qed

theorem extract_with_frequency_ranked_witness:
  "[''roof'', ''repair'', ''roof''] = content_words (all_stopwords None) ''roof repair roof''
   \<and> [''roof'', ''repair'', ''roof''] \<noteq> ([] :: string list) \<and> (0 :: int) < 25
   \<and> (\<exists>top rest. extract_with_frequency (all_stopwords None) ''roof repair roof'' 25 = top # rest
         \<and> score top = 1 \<and> keyword top \<in> set [''roof'', ''repair'', ''roof''])"
proof -
  have h: "[''roof'', ''repair'', ''roof''] = content_words (all_stopwords None) ''roof repair roof''"
    by (simp add: roof_words)
  have n: "[''roof'', ''repair'', ''roof''] \<noteq> ([] :: string list)" by simp
  have m: "(0 :: int) < 25" by simp
  from extract_with_frequency_ranked [OF h n m]
  obtain top rest where
    "extract_with_frequency (all_stopwords None) ''roof repair roof'' 25 = top # rest"
    "score top = 1" "keyword top \<in> set [''roof'', ''repair'', ''roof'']"
    by blast
  then have "\<exists>top rest. extract_with_frequency (all_stopwords None) ''roof repair roof'' 25 = top # rest
         \<and> score top = 1 \<and> keyword top \<in> set [''roof'', ''repair'', ''roof'']"
    by blast
  with h n m show ?thesis by blast
qed

section \<open>Properties of the category resolver\<close>

lemma overlap_step_empty: "overlap_step [] best cat = best"
  by (simp add: overlap_step_def split_ws_def char_runs_def split: prod.splits)

lemma foldl_overlap_step_empty: "foldl (overlap_step []) best tc = best"
  by (induction tc arbitrary: best) (simp_all add: overlap_step_empty)

lemma static_table_nonempty: "load_api_categories (Inl e) \<noteq> []"
  by (simp add: load_api_categories_def CATEGORY_MAPPINGS_def)

lemma ai_lower: "lower ''ai software technology'' = ''ai software technology''"
  by (simp add: lower_def char_defs)

lemma ai_best:
  "best_overlap (load_api_categories (Inl e)) ''ai software technology'' = (None, 0, 16)"
  by (simp add: best_overlap_def load_api_categories_def CATEGORY_MAPPINGS_def overlap_step_def
      lower_def split_ws_def char_runs_def char_defs)

lemma ai_contains: "any_in [''tech'', ''software'', ''ai''] ''ai software technology''"
  by (simp add: any_in_def)

text \<open>
  Claim C4, as stated, for every input text: with no keyword family in the text the
  result is News at confidence 0.4. It fails for the empty text, which the guard
  \<open>if not text\<close> answers with News at confidence 0.
\<close>

theorem resolve_trends_category_empty_text:
  "fst (snd (best_overlap (load_api_categories (Inl ''unavailable'')) (lower []))) < 3 / 10
   \<and> \<not> any_in [''tech'', ''software'', ''ai'', ''computer'', ''digital'', ''business'',
               ''marketing'', ''finance'', ''investment'', ''health'', ''medical'', ''fitness'',
               ''wellness'', ''food'', ''recipe'', ''restaurant'', ''cooking''] (lower [])
   \<and> resolve_trends_category (load_api_categories (Inl ''unavailable'')) [] = (''News'', 16, 0)
   \<and> resolve_trends_category (load_api_categories (Inl ''unavailable'')) []
       \<noteq> (''News'', 16, 4 / 10)"
  by (simp add: best_overlap_def lower_def foldl_overlap_step_empty any_in_def
      resolve_trends_category_def)

text \<open>
  Claim C4, amended. With the built-in table in effect (loading the external list
  raised), \<open>resolve_trends_category\<close> is a total function, and for every non-empty
  text whose best overlap score is below 0.3: if the lower-cased text contains
  \<open>tech\<close>, \<open>software\<close> or \<open>ai\<close>, the result is Computers \& Electronics, id 5,
  confidence 0.6; if it contains no word of any keyword family, the result is News,
  id 16, confidence 0.4.
\<close>

theorem resolve_trends_category_fallback:
  assumes "text \<noteq> []"
    and "best_overlap (load_api_categories (Inl e)) (lower text) = (best_match, best_score, best_id)"
    and "best_score < 3 / 10"
  shows "(any_in [''tech'', ''software'', ''ai''] (lower text) \<longrightarrow>
            resolve_trends_category (load_api_categories (Inl e)) text
              = (''Computers & Electronics'', 5, 6 / 10))
       \<and> (\<not> any_in [''tech'', ''software'', ''ai'', ''computer'', ''digital'', ''business'',
               ''marketing'', ''finance'', ''investment'', ''health'', ''medical'', ''fitness'',
               ''wellness'', ''food'', ''recipe'', ''restaurant'', ''cooking''] (lower text) \<longrightarrow>
            resolve_trends_category (load_api_categories (Inl e)) text = (''News'', 16, 4 / 10))"
  using assms static_table_nonempty [of e]
  by (simp add: resolve_trends_category_def any_in_def)

theorem resolve_trends_category_fallback_witness:
  "''ai software technology'' \<noteq> []
   \<and> best_overlap (load_api_categories (Inl ''unavailable'')) (lower ''ai software technology'')
       = (None, 0, 16)
   \<and> (0 :: rat) < 3 / 10
   \<and> any_in [''tech'', ''software'', ''ai''] (lower ''ai software technology'')
   \<and> resolve_trends_category (load_api_categories (Inl ''unavailable'')) ''ai software technology''
       = (''Computers & Electronics'', 5, 6 / 10)"
proof -
  have a: "''ai software technology'' \<noteq> []" by simp
  have b: "best_overlap (load_api_categories (Inl ''unavailable'')) (lower ''ai software technology'')
       = (None, 0, 16)" by (simp only: ai_lower ai_best)
  have c: "(0 :: rat) < 3 / 10" by simp
  have d: "any_in [''tech'', ''software'', ''ai''] (lower ''ai software technology'')"
    by (simp only: ai_lower ai_contains)
  from resolve_trends_category_fallback [OF a b c] d
  have "resolve_trends_category (load_api_categories (Inl ''unavailable'')) ''ai software technology''
       = (''Computers & Electronics'', 5, 6 / 10)" by blast
  with a b c d show ?thesis by blast
qed

section \<open>Properties of the content extractor\<close>

lemma extract_content_body_length:
  "extract_content_body lib u = Inr s \<Longrightarrow> length s \<le> 10000"
  by (auto simp: extract_content_body_def split: sum.splits if_splits)

text \<open>
  Claim C7. For every URL and whatever the libraries do, \<open>extract_content\<close> returns a
  string and raises nothing; the string has at most 10000 characters; and when the
  body of the \<open>try\<close> block raises, in particular when the request or the parser
  fails, the string is empty.
\<close>

theorem extract_content_never_raises:
  "(\<exists>s. extract_content lib u = Inr s \<and> length s \<le> 10000)
   \<and> (\<forall>e. extract_content_body lib u = Inl e \<longrightarrow> extract_content lib u = Inr [])
   \<and> (\<forall>e. http_get lib u = Inl e \<longrightarrow> extract_content lib u = Inr [])
   \<and> (\<forall>t e. http_get lib u = Inr t \<and> parse_html lib t = Inl e \<longrightarrow> extract_content lib u = Inr [])"
proof -
  have "\<exists>s. extract_content lib u = Inr s \<and> length s \<le> 10000"
    using extract_content_body_length [of lib u]
    by (cases "extract_content_body lib u") (simp_all add: extract_content_def)
  moreover have "\<forall>e. extract_content_body lib u = Inl e \<longrightarrow> extract_content lib u = Inr []"
    by (simp add: extract_content_def)
  moreover have "\<forall>e. http_get lib u = Inl e \<longrightarrow> extract_content lib u = Inr []"
    by (simp add: extract_content_def extract_content_body_def)
  moreover have "\<forall>t e. http_get lib u = Inr t \<and> parse_html lib t = Inl e
      \<longrightarrow> extract_content lib u = Inr []"
    by (simp add: extract_content_def extract_content_body_def)
  ultimately show ?thesis by blast
qed

theorem extract_content_never_raises_witness:
  "http_get offline_library ''https://example.com'' = Inl ''connection refused''
   \<and> extract_content offline_library ''https://example.com'' = Inr []"
proof -
  have h: "http_get offline_library ''https://example.com'' = Inl ''connection refused''"
    by (simp add: offline_library_def)
  with extract_content_never_raises [of offline_library "''https://example.com''"]
  show ?thesis by blast
qed

section \<open>Properties of the store\<close>

lemma set_field_frame:
  "run_id (set_field r fv) = run_id r \<and> url (set_field r fv) = url r
   \<and> started_at (set_field r fv) = started_at r"
  by (cases fv) (simp add: set_field_def)

lemma foldl_set_field_frame:
  "run_id (foldl set_field r fvs) = run_id r \<and> url (foldl set_field r fvs) = url r
   \<and> started_at (foldl set_field r fvs) = started_at r"
  by (induction fvs arbitrary: r) (simp_all add: set_field_frame)

lemma update_run_runs:
  "runs (update_run st rid kwargs)
   = map (\<lambda>r. if run_id r = rid
               then foldl set_field r (filter (\<lambda>(field, v). field \<in> set allowed_fields) kwargs)
               else r) (runs st)"
proof (cases "filter (\<lambda>(field, v). field \<in> set allowed_fields) kwargs = []")
  case True
  then have "update_run st rid kwargs = st" by (simp add: update_run_def Let_def)
  with True show ?thesis by (simp add: map_idI)
next
  case False
  then have "kwargs \<noteq> []" by auto
  with False show ?thesis by (simp add: update_run_def Let_def)
qed

lemma update_run_other_tables:
  "page_keywords (update_run st rid kwargs) = page_keywords st"
  "trends_interest (update_run st rid kwargs) = trends_interest st"
  "trends_related_queries (update_run st rid kwargs) = trends_related_queries st"
  "youtube_videos (update_run st rid kwargs) = youtube_videos st"
  "news_articles (update_run st rid kwargs) = news_articles st"
  by (simp_all add: update_run_def Let_def)

lemma update_run_ignores:
  "update_run st rid kwargs
   = update_run st rid (filter (\<lambda>(field, v). field \<in> set allowed_fields) kwargs)"
proof (cases "filter (\<lambda>(field, v). field \<in> set allowed_fields) kwargs = []")
  case True
  then show ?thesis by (simp add: update_run_def Let_def)
next
  case False
  then have "kwargs \<noteq> []" by auto
  with False show ?thesis by (simp add: update_run_def Let_def)
qed

lemma update_run_nothing_allowed:
  "filter (\<lambda>(field, v). field \<in> set allowed_fields) kwargs = [] \<Longrightarrow> update_run st rid kwargs = st"
  by (simp add: update_run_def Let_def)

text \<open>
  Claim C9. For every store, run id and keyword arguments, \<open>update_run\<close> leaves the id,
  the url and the start time of every run as they were, leaves every run with another
  id and every other table unchanged, and has the same effect as the call with only
  the arguments whose names are in the allow-list: the other arguments are ignored,
  and a call with none of the allowed names changes nothing.
\<close>

theorem update_run_frame:
  "map run_id (runs (update_run st rid kwargs)) = map run_id (runs st)
   \<and> map url (runs (update_run st rid kwargs)) = map url (runs st)
   \<and> map started_at (runs (update_run st rid kwargs)) = map started_at (runs st)
   \<and> filter (\<lambda>r. run_id r \<noteq> rid) (runs (update_run st rid kwargs))
       = filter (\<lambda>r. run_id r \<noteq> rid) (runs st)
   \<and> update_run st rid kwargs
       = update_run st rid (filter (\<lambda>(field, v). field \<in> set allowed_fields) kwargs)
   \<and> (filter (\<lambda>(field, v). field \<in> set allowed_fields) kwargs = [] \<longrightarrow>
        update_run st rid kwargs = st)
   \<and> page_keywords (update_run st rid kwargs) = page_keywords st
   \<and> trends_interest (update_run st rid kwargs) = trends_interest st
   \<and> trends_related_queries (update_run st rid kwargs) = trends_related_queries st
   \<and> youtube_videos (update_run st rid kwargs) = youtube_videos st
   \<and> news_articles (update_run st rid kwargs) = news_articles st"
proof -
  let ?ok = "\<lambda>(field :: string, v :: sqlval). field \<in> set allowed_fields"
  let ?f = "\<lambda>r. if run_id r = rid then foldl set_field r (filter ?ok kwargs) else r"
  have m: "map run_id (map ?f rows) = map run_id rows \<and> map url (map ?f rows) = map url rows
      \<and> map started_at (map ?f rows) = map started_at rows
      \<and> filter (\<lambda>r. run_id r \<noteq> rid) (map ?f rows) = filter (\<lambda>r. run_id r \<noteq> rid) rows"
    for rows :: "run_row list"
    by (induction rows) (simp_all add: foldl_set_field_frame)
  have a: "map run_id (runs (update_run st rid kwargs)) = map run_id (runs st)"
    and b: "map url (runs (update_run st rid kwargs)) = map url (runs st)"
    and c: "map started_at (runs (update_run st rid kwargs)) = map started_at (runs st)"
    and d: "filter (\<lambda>r. run_id r \<noteq> rid) (runs (update_run st rid kwargs))
       = filter (\<lambda>r. run_id r \<noteq> rid) (runs st)"
    using m [of "runs st"] by (simp_all only: update_run_runs)
  show ?thesis
    using a b c d update_run_ignores [of st rid kwargs] update_run_nothing_allowed [of kwargs st rid]
      update_run_other_tables [of st rid kwargs]
    by blast
qed


theorem update_run_frame_witness:
  "filter (\<lambda>(field, v). field \<in> set allowed_fields)
          [(''url'', SText ''https://other.example''), (''id'', SInt 7)] = []
   \<and> update_run example_store 1
       [(''url'', SText ''https://other.example''), (''id'', SInt 7)]
     = example_store"
proof -
  have h: "filter (\<lambda>(field, v). field \<in> set allowed_fields)
          [(''url'', SText ''https://other.example''), (''id'', SInt 7)] = []"
    by (simp add: allowed_fields_def)
  with update_run_frame [of example_store 1
        "[(''url'', SText ''https://other.example''), (''id'', SInt 7)]"]
  show ?thesis by blast
qed

section \<open>Properties of the results endpoint\<close>





















section \<open>Properties of the fallback synthesis\<close>

lemma analyze_url_nonempty:
  "\<exists>c. analyze_url_for_business_intelligence lib u = Inr c \<and> c \<noteq> []"
  by (auto simp: analyze_url_for_business_intelligence_def analyze_url_body_def Let_def
      split: sum.splits prod.splits)

lemma get_content_nonempty: "get_content h u = Inr c \<Longrightarrow> c \<noteq> []"
  using analyze_url_nonempty [of "url_library h" u]
  by (auto simp: get_content_def split: sum.splits if_splits)

lemma process_batch_no_update: "UpdateRun r k \<notin> set (process_batch p rid cat batch)"
  by (auto simp: process_batch_def Let_def split: sum.splits)

lemma analyze_trends_no_update: "UpdateRun r k \<notin> set (analyze_trends client rid ks cat)"
  by (auto simp: analyze_trends_def process_batch_no_update split: option.splits)


lemma analysis_body_no_content_failure:
  "UpdateRun rid [(''status'', SText ''failed''),
                  (''notes'', SText ''Could not extract or analyze content'')]
     \<notin> set (fst (analysis_body h rid u))"
proof (cases "get_content h u")
  case (Inl e)
  then show ?thesis by (simp add: analysis_body_def)
next
  case (Inr content)
  then have ne: "content \<noteq> []" by (rule get_content_nonempty)
  show ?thesis
  proof (cases "keyword_extractor h content")
    case (Inl e)
    with Inr ne show ?thesis by (simp add: analysis_body_def)
  next
    case kw: (Inr kws)
    show ?thesis
    proof (cases "kws = []")
      case True
      with Inr ne kw show ?thesis by (simp add: analysis_body_def)
    next
      case False
      with Inr ne kw show ?thesis
        by (simp add: analysis_body_def Let_def analyze_youtube_def analyze_news_def
            analyze_trends_no_update split: sum.splits prod.splits)
    qed
  qed
qed

lemma example_get_content:
  "get_content example_harvester ''https://example.com''
   = Inr (''Professional business services. Quality service provider. ''
          @ ''Customer satisfaction. Reliable team.'')"
  by (simp add: get_content_def example_harvester_def example_urllib_def
      analyze_url_for_business_intelligence_def analyze_url_body_def)

text \<open>
  Claim C10. For every URL the fallback synthesizer returns a string that is not empty,
  also when its body raises; so the content that \<open>run_analysis\<close> tests after step 1 is
  never empty, and the \<open>try\<close> block never commits the write that marks the run failed
  with the note \<open>Could not extract or analyze content\<close>.
\<close>

theorem fallback_content_never_empty:
  "(\<exists>c. analyze_url_for_business_intelligence (url_library h) u = Inr c \<and> c \<noteq> [])
   \<and> (\<forall>c. get_content h u = Inr c \<longrightarrow> c \<noteq> [])
   \<and> UpdateRun rid [(''status'', SText ''failed''),
                    (''notes'', SText ''Could not extract or analyze content'')]
       \<notin> set (fst (analysis_body h rid u))"
  using analyze_url_nonempty [of "url_library h" u] get_content_nonempty [of h u]
    analysis_body_no_content_failure [of rid h u]
  by blast

theorem fallback_content_never_empty_witness:
  "get_content example_harvester ''https://example.com''
     = Inr (''Professional business services. Quality service provider. ''
            @ ''Customer satisfaction. Reliable team.'')
   \<and> ''Professional business services. Quality service provider. ''
            @ ''Customer satisfaction. Reliable team.'' \<noteq> []"
  using fallback_content_never_empty [of example_harvester "''https://example.com''" 1]
    example_get_content
  by blast

section \<open>Properties of the run life cycle\<close>

lemma find_append_none: "find P xs = None \<Longrightarrow> find P (xs @ ys) = find P ys"
  by (induction xs) (auto split: if_splits)

lemma find_map_pres:
  "(\<And>x. P (f x) = P x) \<Longrightarrow> find P (map f xs) = map_option f (find P xs)"
  by (induction xs) auto

lemma find_Some_holds: "find P xs = Some x \<Longrightarrow> P x"
  by (induction xs) (auto split: if_splits)

lemma run_id_le_max: "r \<in> set rows \<Longrightarrow> run_id r \<le> foldr max (map run_id rows) 0"
  by (induction rows) auto

lemma next_run_id_fresh: "find (\<lambda>r. run_id r = next_run_id rows) rows = None"
proof -
  have "run_id r \<noteq> next_run_id rows" if "r \<in> set rows" for r
    using run_id_le_max [OF that] by (simp add: next_run_id_def)
  then show ?thesis by (auto simp: find_None_iff)
qed

lemma create_run_state:
  assumes "create_run st u t = (st1, rid)"
  shows "run_state st1 rid = Some (SText ''running'', SNull, SNull)"
proof -
  from assms have rid: "rid = next_run_id (runs st)"
    and st1: "runs st1 = runs st @ [\<lparr>run_id = rid, url = u, detected_category_name = SNull,
         detected_category_id = SNull, youtube_category_id = SNull, started_at = t,
         finished_at = SNull, status = SText ''running'', run_notes = SNull\<rparr>]"
    by (auto simp: create_run_def Let_def)
  have "find (\<lambda>r. run_id r = rid) (runs st) = None"
    unfolding rid by (rule next_run_id_fresh)
  then show ?thesis
    by (simp add: run_state_def st1 find_append_none)
qed

lemma set_field_quiet:
  assumes "fst fv \<noteq> ''status''" "fst fv \<noteq> ''finished_at''" "fst fv \<noteq> ''notes''"
  shows "status (set_field r fv) = status r \<and> finished_at (set_field r fv) = finished_at r
         \<and> run_notes (set_field r fv) = run_notes r"
  using assms by (cases fv) (simp add: set_field_def)

lemma foldl_set_field_quiet:
  assumes "''status'' \<notin> fst ` set fvs" "''finished_at'' \<notin> fst ` set fvs"
    "''notes'' \<notin> fst ` set fvs"
  shows "status (foldl set_field r fvs) = status r
         \<and> finished_at (foldl set_field r fvs) = finished_at r
         \<and> run_notes (foldl set_field r fvs) = run_notes r"
  using assms
proof (induction fvs arbitrary: r)
  case Nil
  then show ?case by simp
next
  case (Cons fv fvs)
  then have "fst fv \<noteq> ''status''" "fst fv \<noteq> ''finished_at''" "fst fv \<noteq> ''notes''"
    by auto
  from set_field_quiet [OF this, of r] Cons show ?case by simp
qed

lemma run_state_update_run:
  "run_state (update_run st rid' kwargs) rid
   = map_option (\<lambda>r. (status r, finished_at r, run_notes r))
       (map_option (\<lambda>r. if run_id r = rid'
            then foldl set_field r (filter (\<lambda>(field, v). field \<in> set allowed_fields) kwargs)
            else r)
          (find (\<lambda>r. run_id r = rid) (runs st)))"
  unfolding run_state_def update_run_runs
  by (subst find_map_pres) (simp_all add: foldl_set_field_frame)

lemma run_state_quiet:
  assumes "quiet w"
  shows "run_state (apply_write st w) rid = run_state st rid"
proof (cases w)
  case (UpdateRun rid' kwargs)
  let ?fvs = "filter (\<lambda>(field, v). field \<in> set allowed_fields) kwargs"
  from assms UpdateRun have "''status'' \<notin> fst ` set ?fvs" "''finished_at'' \<notin> fst ` set ?fvs"
    "''notes'' \<notin> fst ` set ?fvs" by auto
  from foldl_set_field_quiet [OF this] show ?thesis
    unfolding UpdateRun apply_write.simps run_state_update_run
    by (cases "find (\<lambda>r. run_id r = rid) (runs st)") (simp_all add: run_state_def)
next
  case (SaveKeywords x1 x2)
  then show ?thesis by (simp add: run_state_def save_keywords_def)
next
  case (InsertInterest x)
  then show ?thesis by (simp add: run_state_def)
next
  case (InsertRelated x)
  then show ?thesis by (simp add: run_state_def)
qed

lemma run_state_failed:
  assumes "run_state st rid = Some (s, f, n)"
  shows "run_state (update_run st rid [(''status'', SText ''failed''), (''notes'', SText e)]) rid
         = Some (SText ''failed'', f, SText e)"
proof -
  from assms obtain r where r: "find (\<lambda>r. run_id r = rid) (runs st) = Some r"
    and f: "finished_at r = f" by (auto simp: run_state_def)
  from find_Some_holds [OF r] have "run_id r = rid" .
  with r f show ?thesis
    unfolding run_state_update_run by (simp add: allowed_fields_def set_field_def)
qed

lemma run_state_completed:
  assumes "run_state st rid = Some (s, f, n)"
  shows "run_state (update_run st rid [(''status'', SText ''completed''),
            (''finished_at'', STime t), (''notes'', SText note)]) rid
         = Some (SText ''completed'', STime t, SText note)"
proof -
  from assms obtain r where r: "find (\<lambda>r. run_id r = rid) (runs st) = Some r"
    by (auto simp: run_state_def)
  from find_Some_holds [OF r] have "run_id r = rid" .
  with r show ?thesis
    unfolding run_state_update_run by (simp add: allowed_fields_def set_field_def)
qed

lemma run_state_status: "run_state st rid = Some (s, f, n) \<Longrightarrow> get_run_status st rid = (s, n)"
  by (auto simp: run_state_def get_run_status_def)

lemma observable_nonempty: "observable st ws \<noteq> []"
  by (cases ws) simp_all

lemma observable_last: "last (observable st ws) = foldl apply_write st ws"
  by (induction ws arbitrary: st) (simp_all add: observable_nonempty)

lemma observable_snoc:
  "observable st (ws @ [w]) = observable st ws @ [apply_write (foldl apply_write st ws) w]"
  by (induction ws arbitrary: st) auto

lemma observable_quiet:
  "list_all quiet ws \<Longrightarrow> s \<in> set (observable st ws) \<Longrightarrow> run_state s rid = run_state st rid"
  by (induction ws arbitrary: st) (auto simp: run_state_quiet)

lemma foldl_quiet: "list_all quiet ws \<Longrightarrow> run_state (foldl apply_write st ws) rid = run_state st rid"
  by (induction ws arbitrary: st) (simp_all add: run_state_quiet)


lemma process_batch_quiet: "list_all quiet (process_batch p rid cat batch)"
  by (simp add: process_batch_def Let_def split: sum.splits)

lemma analyze_trends_quiet: "list_all quiet (analyze_trends client rid ks cat)"
  by (auto simp: analyze_trends_def list_all_iff process_batch_quiet [unfolded list_all_iff]
      split: option.splits)

lemma analysis_writes_shape:
  "(\<exists>pre e. analysis_writes h rid u = pre @ [failed_write rid e] \<and> list_all quiet pre
        \<and> (\<forall>e'. snd (analysis_body h rid u) = Inl e' \<longrightarrow> e' = e))
   \<or> (\<exists>pre note. analysis_writes h rid u = pre @ [completed_write rid (clock_finish h) note]
        \<and> list_all quiet pre \<and> snd (analysis_body h rid u) = Inr ())"
proof (cases "get_content h u")
  case (Inl e)
  then have "analysis_writes h rid u = [] @ [failed_write rid e]"
    "snd (analysis_body h rid u) = Inl e"
    by (simp_all add: analysis_writes_def analysis_body_def failed_write_def)
  then show ?thesis by (intro disjI1 exI [of _ "[]"] exI [of _ e]) simp
next
  case (Inr content)
  then have ne: "content \<noteq> []" by (rule get_content_nonempty)
  show ?thesis
  proof (cases "keyword_extractor h content")
    case (Inl e)
    with Inr ne have "analysis_writes h rid u = [] @ [failed_write rid e]"
      "snd (analysis_body h rid u) = Inl e"
      by (simp_all add: analysis_writes_def analysis_body_def failed_write_def)
    then show ?thesis by (intro disjI1 exI [of _ "[]"] exI [of _ e]) simp
  next
    case kw: (Inr kws)
    show ?thesis
    proof (cases "kws = []")
      case True
      with Inr ne kw have "analysis_writes h rid u = [] @ [failed_write rid ''No keywords extracted'']"
        "snd (analysis_body h rid u) = Inr ()"
        by (simp_all add: analysis_writes_def analysis_body_def failed_write_def)
      then show ?thesis
        by (intro disjI1 exI [of _ "[]"] exI [of _ "''No keywords extracted''"]) simp
    next
      case False
      let ?text = "join '' '' (map keyword (take 10 kws))"
      show ?thesis
      proof (cases "category_resolver h ?text")
        case (Inl e)
        with Inr ne kw False
        have "analysis_writes h rid u = [SaveKeywords rid kws] @ [failed_write rid e]"
          "snd (analysis_body h rid u) = Inl e"
          by (simp_all add: analysis_writes_def analysis_body_def failed_write_def Let_def)
        then show ?thesis
          by (intro disjI1 exI [of _ "[SaveKeywords rid kws]"] exI [of _ e]) simp
      next
        case cat: (Inr triple)
        obtain category_name trends_id confidence where
          triple: "triple = (category_name, trends_id, confidence)" by (cases triple) auto
        show ?thesis
        proof (cases "youtube_resolver h category_name")
          case (Inl e)
          with Inr ne kw False cat triple
          have "analysis_writes h rid u = [SaveKeywords rid kws] @ [failed_write rid e]"
            "snd (analysis_body h rid u) = Inl e"
            by (simp_all add: analysis_writes_def analysis_body_def failed_write_def Let_def)
          then show ?thesis
            by (intro disjI1 exI [of _ "[SaveKeywords rid kws]"] exI [of _ e]) simp
        next
          case yt: (Inr youtube_id)
          define pre where "pre = [SaveKeywords rid kws,
                UpdateRun rid [(''detected_category_name'', SText category_name),
                               (''detected_category_id'', SInt trends_id),
                               (''youtube_category_id'', SText youtube_id)]]
              @ analyze_trends (pytrends h) rid (map keyword (take 7 kws)) trends_id"
          define msg where "msg = ''Analysis completed with '' @ format_2f h confidence
              @ '' category confidence''"
          from Inr ne kw False cat triple yt
          have "analysis_writes h rid u = pre @ [completed_write rid (clock_finish h) msg]"
            "snd (analysis_body h rid u) = Inr ()"
            by (simp_all add: analysis_writes_def analysis_body_def completed_write_def Let_def
                analyze_youtube_def analyze_news_def pre_def msg_def)
          moreover have "list_all quiet pre"
            by (simp add: pre_def analyze_trends_quiet)
          ultimately show ?thesis
            by (intro disjI2 exI [of _ pre] exI [of _ msg]) simp
        qed
      qed
    qed
  qed
qed


lemma run_analysis_unfold:
  assumes "create_run st u (clock_start h) = (st1, rid)"
  shows "run_analysis h st u = (foldl apply_write st1 (analysis_writes h rid u), rid)"
    and "run_analysis_states h st u = observable st1 (analysis_writes h rid u)"
  using assms by (simp_all add: run_analysis_def run_analysis_states_def)

lemma run_analysis_final_state:
  assumes cr: "create_run st u (clock_start h) = (st1, rid)"
  shows "(\<exists>pre e. analysis_writes h rid u = pre @ [failed_write rid e] \<and> list_all quiet pre
            \<and> (\<forall>e'. snd (analysis_body h rid u) = Inl e' \<longrightarrow> e' = e)
            \<and> run_state (fst (run_analysis h st u)) rid = Some (SText ''failed'', SNull, SText e))
       \<or> (\<exists>pre msg. analysis_writes h rid u = pre @ [completed_write rid (clock_finish h) msg]
            \<and> list_all quiet pre \<and> snd (analysis_body h rid u) = Inr ()
            \<and> run_state (fst (run_analysis h st u)) rid
                = Some (SText ''completed'', STime (clock_finish h), SText msg))"
proof -
  have start: "run_state (foldl apply_write st1 pre) rid = Some (SText ''running'', SNull, SNull)"
    if "list_all quiet pre" for pre
    using that create_run_state [OF cr] by (simp add: foldl_quiet)
  from analysis_writes_shape [of h rid u] show ?thesis
  proof (elim disjE exE conjE)
    fix pre e
    assume w: "analysis_writes h rid u = pre @ [failed_write rid e]" and q: "list_all quiet pre"
      and e: "\<forall>e'. snd (analysis_body h rid u) = Inl e' \<longrightarrow> e' = e"
    have "run_state (fst (run_analysis h st u)) rid = Some (SText ''failed'', SNull, SText e)"
      using run_state_failed [OF start [OF q], of e]
      by (simp add: run_analysis_unfold(1) [OF cr] w failed_write_def)
    with w q e show ?thesis by blast
  next
    fix pre msg
    assume w: "analysis_writes h rid u = pre @ [completed_write rid (clock_finish h) msg]"
      and q: "list_all quiet pre" and r: "snd (analysis_body h rid u) = Inr ()"
    have "run_state (fst (run_analysis h st u)) rid
            = Some (SText ''completed'', STime (clock_finish h), SText msg)"
      using run_state_completed [OF start [OF q], of "clock_finish h" msg]
      by (simp add: run_analysis_unfold(1) [OF cr] w completed_write_def)
    with w q r show ?thesis by blast
  qed
qed

lemma successively_then:
  "(\<And>x. x \<in> set xs \<Longrightarrow> g x = a) \<Longrightarrow> forward a b \<Longrightarrow> successively forward (map g xs @ [b])"
proof (induction xs)
  case Nil
  then show ?case by simp
next
  case (Cons x xs)
  then have "successively forward (map g xs @ [b])" "g x = a" by simp_all
  moreover have "forward a (hd (map g xs @ [b]))"
    using Cons.prems by (cases xs) (simp_all add: forward_def)
  ultimately show ?case by (simp add: successively_Cons)
qed

text \<open>
  Claim C1, amended. In every store that can be observed while \<open>run_analysis\<close> works
  on a run, from its creation on, the run has status \<open>running\<close>, \<open>completed\<close> or
  \<open>failed\<close>, and its \<open>finished_at\<close> is non-null if and only if its status is
  \<open>completed\<close>. From one observed store to the next the status stays or moves from
  \<open>running\<close> to \<open>completed\<close> or \<open>failed\<close>, so it never returns to \<open>running\<close>; the
  last store is the one returned, and there the status is terminal.
\<close>

theorem run_status_life_cycle:
  assumes ra: "run_analysis h st u = (st', rid)"
  shows "(\<forall>s \<in> set (run_analysis_states h st u).
            \<exists>sv fv nv. run_state s rid = Some (sv, fv, nv)
              \<and> (sv = SText ''running'' \<or> terminal sv)
              \<and> ((fv \<noteq> SNull) = (sv = SText ''completed'')))
       \<and> successively forward
            (map (\<lambda>s. fst (get_run_status s rid)) (run_analysis_states h st u))
       \<and> last (run_analysis_states h st u) = st'
       \<and> terminal (fst (get_run_status st' rid))"
proof -
  obtain st1 where cr: "create_run st u (clock_start h) = (st1, rid)"
    using ra by (cases "create_run st u (clock_start h)") (simp add: run_analysis_def)
  have st': "st' = foldl apply_write st1 (analysis_writes h rid u)"
    using ra by (simp add: run_analysis_unfold(1) [OF cr])
  have states: "run_analysis_states h st u = observable st1 (analysis_writes h rid u)"
    by (rule run_analysis_unfold(2) [OF cr])
  have last: "last (run_analysis_states h st u) = st'"
    by (simp add: states st' observable_last)
  from run_analysis_final_state [OF cr]
  obtain pre fin sv fv nv where w: "analysis_writes h rid u = pre @ [fin]"
    and q: "list_all quiet pre"
    and fin: "run_state st' rid = Some (sv, fv, nv)"
    and sv: "terminal sv" "(fv \<noteq> SNull) = (sv = SText ''completed'')"
    using ra by (elim disjE exE conjE) (auto simp: terminal_def)
  have split: "run_analysis_states h st u = observable st1 pre @ [st']"
    by (simp add: states w observable_snoc st')
  have running: "run_state s rid = Some (SText ''running'', SNull, SNull)"
    if "s \<in> set (observable st1 pre)" for s
    using observable_quiet [OF q that, of rid] create_run_state [OF cr] by simp
  have all: "\<exists>sv fv nv. run_state s rid = Some (sv, fv, nv)
              \<and> (sv = SText ''running'' \<or> terminal sv)
              \<and> ((fv \<noteq> SNull) = (sv = SText ''completed''))"
    if "s \<in> set (run_analysis_states h st u)" for s
  proof (cases "s \<in> set (observable st1 pre)")
    case True
    from running [OF True] show ?thesis by simp
  next
    case False
    with that split have "s = st'" by simp
    with fin sv show ?thesis by simp
  qed
  have g: "fst (get_run_status s rid) = SText ''running''" if "s \<in> set (observable st1 pre)" for s
    using run_state_status [OF running [OF that]] by simp
  have gfin: "fst (get_run_status st' rid) = sv"
    using run_state_status [OF fin] by simp
  have "forward (SText ''running'') sv" using sv(1) by (auto simp: forward_def terminal_def)
  from successively_then [of "observable st1 pre" "\<lambda>s. fst (get_run_status s rid)", OF g this]
  have "successively forward
          (map (\<lambda>s. fst (get_run_status s rid)) (run_analysis_states h st u))"
    by (simp add: split gfin)
  with all last gfin sv(1) show ?thesis by blast
qed


lemma snd_run_analysis: "snd (run_analysis h st u) = next_run_id (runs st)"
  by (simp add: run_analysis_def create_run_def Let_def)

lemma example_harvesters_content:
  "get_content no_keywords_harvester u
     = Inr (''Professional business services. Quality service provider. ''
            @ ''Customer satisfaction. Reliable team.'')"
  "get_content raising_harvester u
     = Inr (''Professional business services. Quality service provider. ''
            @ ''Customer satisfaction. Reliable team.'')"
  by (simp_all add: get_content_def no_keywords_harvester_def raising_harvester_def
      example_harvester_def example_urllib_def analyze_url_for_business_intelligence_def
      analyze_url_body_def)

lemma no_keywords_writes:
  "analysis_writes no_keywords_harvester rid u = [failed_write rid ''No keywords extracted'']"
  by (simp add: analysis_writes_def analysis_body_def example_harvesters_content failed_write_def)
    (simp add: no_keywords_harvester_def)

lemma raising_body:
  "snd (analysis_body raising_harvester rid u) = Inl ''out of memory''"
  by (simp add: analysis_body_def example_harvesters_content)
    (simp add: raising_harvester_def)

text \<open>
  Claim C1, as stated: \<open>finished_at\<close> is non-null if and only if the status is
  terminal. It fails for a run that finds no keyword: the run ends with the terminal
  status \<open>failed\<close>, and its \<open>finished_at\<close> is still NULL.
\<close>

theorem failed_run_has_no_finish_time:
  "run_state (fst (run_analysis no_keywords_harvester empty_store ''https://example.com'')) 1
     = Some (SText ''failed'', SNull, SText ''No keywords extracted'')
   \<and> terminal (SText ''failed'')"
proof -
  obtain st1 where cr: "create_run empty_store ''https://example.com''
      (clock_start no_keywords_harvester) = (st1, 1)"
    by (simp add: create_run_def empty_store_def next_run_id_def Let_def)
  have "fst (run_analysis no_keywords_harvester empty_store ''https://example.com'')
      = update_run st1 1 [(''status'', SText ''failed''), (''notes'', SText ''No keywords extracted'')]"
    by (simp add: run_analysis_unfold(1) [OF cr] no_keywords_writes failed_write_def)
  with run_state_failed [OF create_run_state [OF cr], of "''No keywords extracted''"]
  show ?thesis by (simp add: terminal_def)
qed

theorem run_status_life_cycle_witness:
  "run_analysis example_harvester empty_store ''https://example.com''
     = (fst (run_analysis example_harvester empty_store ''https://example.com''), 1)
   \<and> terminal (fst (get_run_status
         (fst (run_analysis example_harvester empty_store ''https://example.com'')) 1))"
proof -
  have "snd (run_analysis example_harvester empty_store ''https://example.com'') = 1"
    by (simp add: snd_run_analysis empty_store_def next_run_id_def)
  then have h: "run_analysis example_harvester empty_store ''https://example.com''
     = (fst (run_analysis example_harvester empty_store ''https://example.com''), 1)"
    by (simp add: prod_eq_iff)
  from run_status_life_cycle [OF h] h show ?thesis by blast
qed

subsection \<open>Batches of the trends analysis\<close>

















section \<open>Properties of the run on a database that can refuse a call\<close>

lemma apply_write_ids: "map run_id (runs (apply_write st w)) = map run_id (runs st)"
proof (cases w)
  case (UpdateRun rid kwargs)
  have "map run_id (map (\<lambda>r. if run_id r = rid then foldl set_field r fvs else r) rows)
      = map run_id rows" for fvs and rows :: "run_row list"
    by (induction rows) (simp_all add: foldl_set_field_frame)
  then show ?thesis by (simp add: UpdateRun update_run_runs)
next
  case (SaveKeywords x1 x2)
  then show ?thesis by (simp add: save_keywords_def)
next
  case (InsertInterest x)
  then show ?thesis by simp
next
  case (InsertRelated x)
  then show ?thesis by simp
qed

lemma db_call_ids:
  "map run_id (runs (fst (fst (db_call f s w)))) = map run_id (runs (fst s))"
  by (cases s) (simp add: db_call_def apply_write_ids split: option.splits)

lemma db_step_ids:
  "map run_id (runs (fst (fst (db_step f s w)))) = map run_id (runs (fst s))"
  using db_call_ids [of f s w]
  by (cases "db_call f s w") (auto simp: db_step_def split: option.splits)

lemma run_batch_db_ids:
  "map run_id (runs (fst (run_batch_db f s ws))) = map run_id (runs (fst s))"
proof (induction ws arbitrary: s)
  case Nil
  then show ?case by simp
next
  case (Cons w ws)
  obtain s' r where c: "db_call f s w = (s', r)" by (cases "db_call f s w")
  with db_call_ids [of f s w] have "map run_id (runs (fst s')) = map run_id (runs (fst s))"
    by simp
  with c Cons [of s'] show ?case by (cases r) simp_all
qed

lemma analyze_trends_db_ids:
  "map run_id (runs (fst (analyze_trends_db f client rid ks cat s))) = map run_id (runs (fst s))"
proof (cases client)
  case None
  then show ?thesis by (simp add: analyze_trends_db_def)
next
  case (Some p)
  have "map run_id (runs (fst (foldl (\<lambda>s' b. run_batch_db f s' (process_batch p rid cat b)) s bs)))
      = map run_id (runs (fst s))" for bs
    by (induction bs arbitrary: s) (simp_all add: run_batch_db_ids)
  with Some show ?thesis by (simp add: analyze_trends_db_def)
qed

lemma analysis_body_db_ids:
  "map run_id (runs (fst (fst (analysis_body_db f h rid u s)))) = map run_id (runs (fst s))"
proof -
  have step: "map run_id (runs (fst s')) = map run_id (runs (fst s0))"
    if "db_step f s0 w = (s', r)" for s0 w s' r
    using db_step_ids [of f s0 w] that by simp
  show ?thesis
    unfolding analysis_body_db_def
    by (auto simp: db_step_ids analyze_trends_db_ids dest!: step
        split: sum.splits prod.splits if_splits)
qed

lemma run_state_exists:
  "(run_state st rid \<noteq> None) = (rid \<in> set (map run_id (runs st)))"
  by (auto simp: run_state_def find_None_iff)


lemma db_call_no_faults: "db_call no_faults (st, n) w = ((apply_write st w, Suc n), None)"
  by (simp add: db_call_def no_faults_def)

lemma db_step_no_faults: "db_step no_faults (st, n) w = ((apply_write st w, Suc n), Inr ())"
  by (simp add: db_step_def db_call_no_faults)

lemma run_batch_db_no_faults:
  "run_batch_db no_faults (st, n) ws = (foldl apply_write st ws, n + length ws)"
  by (induction ws arbitrary: st n) (simp_all add: db_call_no_faults)

lemma analyze_trends_db_no_faults:
  "analyze_trends_db no_faults client rid ks cat (st, n)
   = (foldl apply_write st (analyze_trends client rid ks cat),
      n + length (analyze_trends client rid ks cat))"
proof (cases client)
  case None
  then show ?thesis by (simp add: analyze_trends_db_def analyze_trends_def)
next
  case (Some p)
  have "foldl (\<lambda>s' b. run_batch_db no_faults s' (process_batch p rid cat b)) (st, n) bs
      = (foldl apply_write st (concat (map (process_batch p rid cat) bs)),
         n + length (concat (map (process_batch p rid cat) bs)))" for bs
    by (induction bs arbitrary: st n) (simp_all add: run_batch_db_no_faults add.assoc)
  with Some show ?thesis by (simp add: analyze_trends_db_def analyze_trends_def)
qed

lemma analysis_body_db_no_faults:
  "fst (fst (analysis_body_db no_faults h rid u (st, n)))
     = foldl apply_write st (fst (analysis_body h rid u))
   \<and> snd (analysis_body_db no_faults h rid u (st, n)) = snd (analysis_body h rid u)"
  by (simp add: analysis_body_db_def analysis_body_def db_step_no_faults
      analyze_trends_db_no_faults analyze_youtube_def analyze_news_def Let_def
      split: sum.splits prod.splits)

text \<open>On a database that accepts every call, the run is the one of \<open>run_analysis\<close>
  above: the same store, and the same run id, returned.\<close>

lemma run_analysis_db_no_faults:
  "run_analysis_db no_faults h st u = (fst (run_analysis h st u), Inr (snd (run_analysis h st u)))"
proof -
  obtain st1 rid where cr: "create_run st u (clock_start h) = (st1, rid)"
    by (cases "create_run st u (clock_start h)")
  obtain s2 out where b: "analysis_body_db no_faults h rid u (st1, 1) = (s2, out)"
    by (cases "analysis_body_db no_faults h rid u (st1, 1)")
  obtain st2 n where s2: "s2 = (st2, n)" by (cases s2)
  from analysis_body_db_no_faults [of h rid u st1 1] b s2
  have st2: "st2 = foldl apply_write st1 (fst (analysis_body h rid u))"
    and out: "out = snd (analysis_body h rid u)" by simp_all
  have f0: "no_faults 0 = None" by (simp add: no_faults_def)
  show ?thesis
  proof (cases out)
    case (Inl e)
    with out have "analysis_writes h rid u
        = fst (analysis_body h rid u)
          @ [UpdateRun rid [(''status'', SText ''failed''), (''notes'', SText e)]]"
      by (cases "analysis_body h rid u") (simp add: analysis_writes_def)
    with Inl b s2 st2 cr f0 show ?thesis
      by (simp add: run_analysis_db_def run_analysis_def db_call_no_faults)
  next
    case (Inr x)
    with out have "analysis_writes h rid u = fst (analysis_body h rid u)"
      by (cases "analysis_body h rid u") (simp add: analysis_writes_def)
    with Inr b s2 st2 cr f0 show ?thesis
      by (simp add: run_analysis_db_def run_analysis_def)
  qed
qed












end
